theory Spec2Isabelle
  imports Complex_Main
begin

section \<open>The symbolic graph of the R(2+1)D network (net.py)\<close>

subsection \<open>Values and errors\<close>

text \<open>
  The program only builds a symbolic graph: every call of an engine constructor
  (\<open>mx.sym.Convolution\<close>, \<open>mx.sym.BatchNorm\<close>, ...) makes one new node whose inputs are
  nodes made earlier. The model keeps the nodes in the order of their creation; a symbol
  handle is the position of its node in that list. A node records exactly the arguments
  the program passes to the constructor: an argument the program leaves out is \<open>None\<close>
  (the engine then takes its own default), and a node made without a \<open>name\<close> argument
  has no name here.

  Python integers are \<open>int\<close>. A double is written as the rational it denotes. The
  batch-norm momentum is a value the caller supplies and the program only hands on, so its
  type is a parameter \<open>'f\<close>.
\<close>

datatype pyerror = KeyError int | ZeroDivisionError | OverflowError

type_synonym sym = nat

type_synonym shape3 = "int \<times> int \<times> int"

datatype 'f node =
    Var string string
      \<comment> \<open>name, dtype\<close>
  | Convolution sym int shape3 shape3 "shape3 option" int "string option" "int option" string
      \<comment> \<open>data, num\_filter, kernel, stride, pad, no\_bias, cudnn\_tune, workspace, name\<close>
  | BatchNorm sym bool rat "'f option" string
      \<comment> \<open>data, fix\_gamma, eps, momentum, name\<close>
  | Activation sym string
      \<comment> \<open>data, act\_type\<close>
  | ElemwiseAdd sym sym
      \<comment> \<open>\<open>shortcut + body\<close>\<close>
  | Pooling sym shape3 shape3 shape3 string string
      \<comment> \<open>data, kernel, stride, pad, pool\_type, name\<close>
  | FullyConnected sym int string
      \<comment> \<open>data, num\_hidden, name\<close>
  | SoftmaxOutput sym sym bool bool string string
      \<comment> \<open>data, label, multi\_output, use\_ignore, normalization, name\<close>

type_synonym 'f graph = "'f node list"

definition emit :: "'f node \<Rightarrow> 'f graph \<Rightarrow> sym \<times> 'f graph" where
  "emit n g = (length g, g @ [n])"

fun node_name :: "'f node \<Rightarrow> string option" where
  "node_name (Var nm _) = Some nm"
| "node_name (Convolution _ _ _ _ _ _ _ _ nm) = Some nm"
| "node_name (BatchNorm _ _ _ _ nm) = Some nm"
| "node_name (Activation _ _) = None"
| "node_name (ElemwiseAdd _ _) = None"
| "node_name (Pooling _ _ _ _ _ nm) = Some nm"
| "node_name (FullyConnected _ _ nm) = Some nm"
| "node_name (SoftmaxOutput _ _ _ _ _ nm) = Some nm"

fun node_inputs :: "'f node \<Rightarrow> sym list" where
  "node_inputs (Var _ _) = []"
| "node_inputs (Convolution d _ _ _ _ _ _ _ _) = [d]"
| "node_inputs (BatchNorm d _ _ _ _) = [d]"
| "node_inputs (Activation d _) = [d]"
| "node_inputs (ElemwiseAdd a b) = [a, b]"
| "node_inputs (Pooling d _ _ _ _ _) = [d]"
| "node_inputs (FullyConnected d _ _) = [d]"
| "node_inputs (SoftmaxOutput d l _ _ _ _) = [d, l]"

fun names :: "'f graph \<Rightarrow> string list" where
  "names [] = []"
| "names (n # g) = (case node_name n of None \<Rightarrow> names g | Some nm \<Rightarrow> nm # names g)"

subsection \<open>Formatting with \<open>%d\<close>\<close>

definition digit_char :: "nat \<Rightarrow> char" where
  "digit_char n = ''0123456789'' ! n"

fun digits :: "nat \<Rightarrow> string" where
  "digits n = (if n < 10 then [digit_char n] else digits (n div 10) @ [digit_char (n mod 10)])"

declare digits.simps [simp del]

definition fmt_d :: "int \<Rightarrow> string" where
  "fmt_d i = (if i < 0 then ''-'' @ digits (nat (- i)) else digits (nat i))"

subsection \<open>The depth table\<close>

definition BLOCK_CONFIG :: "int \<rightharpoonup> int \<times> int \<times> int \<times> int" where
  "BLOCK_CONFIG =
     [10 \<mapsto> (1, 1, 1, 1),
      16 \<mapsto> (2, 2, 2, 1),
      18 \<mapsto> (2, 2, 2, 2),
      26 \<mapsto> (2, 3, 4, 3),
      34 \<mapsto> (3, 4, 6, 3)]"

subsection \<open>ModelBuilder\<close>

record 'f ModelBuilder =
  comp_count :: int
  comp_idx :: int
  bn_mom :: 'f
  no_bias :: int
  cudnn_tune :: string
  workspace :: int

definition ModelBuilder_init :: "int \<Rightarrow> 'f \<Rightarrow> string \<Rightarrow> int \<Rightarrow> 'f ModelBuilder" where
  "ModelBuilder_init nb mom tune ws =
     \<lparr>comp_count = 0, comp_idx = 0, bn_mom = mom,
      no_bias = (if nb \<noteq> 0 then 1 else 0), cudnn_tune = tune, workspace = ws\<rparr>"

text \<open>
  The division \<open>a / b\<close> of two Python 3 integers is true division: it raises
  \<open>ZeroDivisionError\<close> for a zero divisor, and otherwise returns the double nearest to the
  exact quotient, ties going to the even significand, or raises \<open>OverflowError\<close> when
  that double would lie beyond the largest one. \<open>round_double\<close> rounds a rational to
  53 significant bits (to a multiple of \<open>2^-1074\<close> in the subnormal range):
  \<open>exponent x\<close> is the \<open>e\<close> with \<open>2^e \<le> x < 2^(e+1)\<close> for positive \<open>x\<close>.
\<close>

fun log2 :: "nat \<Rightarrow> nat" where
  "log2 n = (if n < 2 then 0 else Suc (log2 (n div 2)))"

declare log2.simps [simp del]

definition clog2 :: "nat \<Rightarrow> nat" where
  "clog2 n = (if n \<le> 1 then 0 else Suc (log2 (n - 1)))"

definition pow2 :: "int \<Rightarrow> rat" where
  "pow2 k = (if 0 \<le> k then 2 ^ nat k else 1 / 2 ^ nat (- k))"

definition exponent :: "rat \<Rightarrow> int" where
  "exponent x = (if 1 \<le> x then int (log2 (nat \<lfloor>x\<rfloor>)) else - int (clog2 (nat \<lceil>1 / x\<rceil>)))"

definition round_half_even :: "rat \<Rightarrow> int" where
  "round_half_even y =
     (let f = \<lfloor>y\<rfloor>; r = y - of_int f
      in if r < 1 / 2 then f else if 1 / 2 < r then f + 1 else if even f then f else f + 1)"

definition round_double :: "rat \<Rightarrow> rat" where
  "round_double x =
     (if x = 0 then 0
      else let ulp = pow2 (max (exponent \<bar>x\<bar> - 52) (- 1074))
           in sgn x * of_int (round_half_even (\<bar>x\<bar> / ulp)) * ulp)"

definition py_truediv :: "int \<Rightarrow> int \<Rightarrow> pyerror + rat" where
  "py_truediv a b =
     (if b = 0 then Inl ZeroDivisionError
      else let r = round_double (rat_of_int a / rat_of_int b)
           in if 2 ^ 1024 \<le> \<bar>r\<bar> then Inl OverflowError else Inr r)"

text \<open>
  \<open>int(x)\<close> on a number truncates toward zero.
\<close>

definition py_int :: "rat \<Rightarrow> int" where
  "py_int x = (if 0 \<le> x then \<lfloor>x\<rfloor> else \<lceil>x\<rceil>)"

text \<open>
  Lines 34 to 36: \<open>i = 3 * in_filters * out_filters * 3 * 3\<close>,
  \<open>i /= in_filters * 3 * 3 + 3 * out_filters\<close>, \<open>middle_filters = int(i)\<close>.
\<close>

definition middle_filters :: "int \<Rightarrow> int \<Rightarrow> pyerror + int" where
  "middle_filters in_filters out_filters =
     (let i = 3 * in_filters * out_filters * 3 * 3
      in case py_truediv i (in_filters * 3 * 3 + 3 * out_filters) of
           Inl e \<Rightarrow> Inl e
         | Inr i \<Rightarrow> Inr (py_int i))"

text \<open>
  \<open>add_spatial_temporal_conv\<close> and \<open>add_r3d_block\<close> take the builder and the graph
  and return the result together with the updated builder and graph; when the division
  raises, the builder keeps the counter it had at that point. The stride is the 3-element
  sequence the callers pass. The call of \<open>logger.info\<close> changes neither the builder nor
  the graph and is left out.
\<close>

definition eps_lit :: rat where
  "eps_lit = 1 / 1000"

definition add_spatial_temporal_conv ::
  "'f ModelBuilder \<Rightarrow> sym \<Rightarrow> int \<Rightarrow> int \<Rightarrow> shape3 \<Rightarrow> 'f graph
     \<Rightarrow> (pyerror + sym) \<times> 'f ModelBuilder \<times> 'f graph" where
  "add_spatial_temporal_conv self body in_filters out_filters stride g =
     (let self = self\<lparr>comp_idx := comp_idx self + 1\<rparr> in
      case middle_filters in_filters out_filters of
        Inl e \<Rightarrow> (Inl e, self, g)
      | Inr m \<Rightarrow>
          (case stride of (s0, s1, s2) \<Rightarrow>
            let (body, g) = emit (Convolution body m (1, 3, 3) (1, s1, s2) (Some (0, 1, 1))
                    (no_bias self) (Some (cudnn_tune self)) (Some (workspace self))
                    (''comp_'' @ fmt_d (comp_count self) @ ''_conv_'' @ fmt_d (comp_idx self)
                       @ ''_middle'')) g;
                (body, g) = emit (BatchNorm body False eps_lit (Some (bn_mom self))
                    (''comp_'' @ fmt_d (comp_count self) @ ''_spatbn_'' @ fmt_d (comp_idx self)
                       @ ''_middle'')) g;
                (body, g) = emit (Activation body ''relu'') g;
                (body, g) = emit (Convolution body out_filters (3, 1, 1) (s0, 1, 1)
                    (Some (1, 0, 0))
                    (no_bias self) (Some (cudnn_tune self)) (Some (workspace self))
                    (''comp_'' @ fmt_d (comp_count self) @ ''_conv_'' @ fmt_d (comp_idx self))) g
            in (Inr body, self, g)))"

definition use_striding :: "bool \<Rightarrow> bool \<Rightarrow> shape3" where
  "use_striding down_sampling only_spatial_downsampling =
     (if down_sampling then (if only_spatial_downsampling then (1, 2, 2) else (2, 2, 2))
      else (1, 1, 1))"

definition add_r3d_block ::
  "'f ModelBuilder \<Rightarrow> sym \<Rightarrow> int \<Rightarrow> int \<Rightarrow> bool \<Rightarrow> bool \<Rightarrow> bool \<Rightarrow> 'f graph
     \<Rightarrow> (pyerror + sym) \<times> 'f ModelBuilder \<times> 'f graph" where
  "add_r3d_block self data input_filters num_filters down_sampling spatial_batch_norm
       only_spatial_downsampling g =
     (let self = self\<lparr>comp_idx := 0\<rparr>;
          shortcut = data;
          strd = use_striding down_sampling only_spatial_downsampling
      in case add_spatial_temporal_conv self data input_filters num_filters strd g of
        (Inl e, self, g) \<Rightarrow> (Inl e, self, g)
      | (Inr body, self, g) \<Rightarrow>
          let (body, g) = emit (BatchNorm body False eps_lit (Some (bn_mom self))
                  (''comp_'' @ fmt_d (comp_count self) @ ''_spatbn_'' @ fmt_d (comp_idx self))) g;
              (body, g) = emit (Activation body ''relu'') g
          in case add_spatial_temporal_conv self body num_filters num_filters (1, 1, 1) g of
            (Inl e, self, g) \<Rightarrow> (Inl e, self, g)
          | (Inr body, self, g) \<Rightarrow>
              let (body, g) = emit (BatchNorm body False eps_lit (Some (bn_mom self))
                      (''comp_'' @ fmt_d (comp_count self) @ ''_spatbn_''
                         @ fmt_d (comp_idx self))) g;
                  (shortcut, g) =
                    (if num_filters \<noteq> input_filters \<or> down_sampling then
                       let (shortcut, g) = emit (Convolution shortcut num_filters (1, 1, 1) strd
                               None (no_bias self) None None
                               (''shortcut_projection_'' @ fmt_d (comp_count self))) g
                       in emit (BatchNorm shortcut False eps_lit None
                               (''shortcut_projection_'' @ fmt_d (comp_count self)
                                  @ ''_spatbn'')) g
                     else (shortcut, g));
                  (out, g) = emit (ElemwiseAdd shortcut body) g;
                  (out, g) = emit (Activation out ''relu'') g;
                  self = self\<lparr>comp_count := comp_count self + 1\<rparr>
              in (Inr out, self, g))"

subsection \<open>create\_r3d\<close>

text \<open>
  \<open>for _ in range(n): body = builder.add_r3d_block(body, c, c)\<close>, with the defaults
  \<open>down_sampling=False\<close>, \<open>spatial_batch_norm=True\<close>, \<open>only_spatial_downsampling=False\<close>.
  \<open>range(n)\<close> is empty for \<open>n \<le> 0\<close>, so the loop runs \<open>nat n\<close> times.
\<close>

primrec block_loop ::
  "nat \<Rightarrow> 'f ModelBuilder \<Rightarrow> sym \<Rightarrow> int \<Rightarrow> 'f graph
     \<Rightarrow> (pyerror + sym) \<times> 'f ModelBuilder \<times> 'f graph" where
  "block_loop 0 builder body c g = (Inr body, builder, g)"
| "block_loop (Suc k) builder body c g =
     (case add_r3d_block builder body c c False True False g of
        (Inl e, builder, g) \<Rightarrow> (Inl e, builder, g)
      | (Inr body, builder, g) \<Rightarrow> block_loop k builder body c g)"

text \<open>
  One stage after the first: the block that changes the width, with
  \<open>down_sampling=True\<close>, then the loop over \<open>range(n - 1)\<close>.
\<close>

definition stage ::
  "int \<Rightarrow> 'f ModelBuilder \<Rightarrow> sym \<Rightarrow> int \<Rightarrow> int \<Rightarrow> 'f graph
     \<Rightarrow> (pyerror + sym) \<times> 'f ModelBuilder \<times> 'f graph" where
  "stage n builder body c_in c_out g =
     (case add_r3d_block builder body c_in c_out True True False g of
        (Inl e, builder, g) \<Rightarrow> (Inl e, builder, g)
      | (Inr body, builder, g) \<Rightarrow> block_loop (nat (n - 1)) builder body c_out g)"

definition create_r3d ::
  "int \<Rightarrow> int \<Rightarrow> int \<Rightarrow> int \<Rightarrow> int \<Rightarrow> 'f \<Rightarrow> string \<Rightarrow> int \<Rightarrow> 'f graph
     \<Rightarrow> (pyerror + sym) \<times> 'f graph" where
  "create_r3d num_class nb model_depth final_spatial_kernel final_temporal_kernel
       mom tune ws g =
     (let (data, g) = emit (Var ''data'' ''float32'') g;
          (body, g) = emit (Convolution data 45 (1, 7, 7) (1, 2, 2) (Some (0, 3, 3)) nb
                              (Some tune) (Some ws) ''conv1_middle'') g;
          (body, g) = emit (BatchNorm body False eps_lit (Some mom)
                              ''conv1_middle_spatbn_relu'') g;
          (body, g) = emit (Activation body ''relu'') g;
          (body, g) = emit (Convolution body 64 (3, 1, 1) (1, 1, 1) (Some (1, 0, 0)) nb
                              (Some tune) (Some ws) ''conv1'') g;
          (body, g) = emit (BatchNorm body False eps_lit (Some mom) ''conv1_spatbn_relu'') g;
          (body, g) = emit (Activation body ''relu'') g
      in case BLOCK_CONFIG model_depth of
        None \<Rightarrow> (Inl (KeyError model_depth), g)
      | Some (n1, n2, n3, n4) \<Rightarrow>
          let builder = ModelBuilder_init nb mom tune ws in
          (case block_loop (nat n1) builder body 64 g of
             (Inl e, builder, g) \<Rightarrow> (Inl e, g)
           | (Inr body, builder, g) \<Rightarrow>
          (case stage n2 builder body 64 128 g of
             (Inl e, builder, g) \<Rightarrow> (Inl e, g)
           | (Inr body, builder, g) \<Rightarrow>
          (case stage n3 builder body 128 256 g of
             (Inl e, builder, g) \<Rightarrow> (Inl e, g)
           | (Inr body, builder, g) \<Rightarrow>
          (case stage n4 builder body 256 512 g of
             (Inl e, builder, g) \<Rightarrow> (Inl e, g)
           | (Inr body, builder, g) \<Rightarrow>
              let (body, g) = emit (Pooling body
                      (final_temporal_kernel, final_spatial_kernel, final_spatial_kernel)
                      (1, 1, 1) (0, 0, 0) ''avg'' ''final_pool'') g;
                  (body, g) = emit (FullyConnected body num_class ''final_fc'') g;
                  (label, g) = emit (Var ''softmax_label'' ''float32'') g;
                  (output, g) = emit (SoftmaxOutput body label True True ''null''
                                        ''softmax'') g
              in (Inr output, g))))))"

subsection \<open>Reading a graph\<close>

text \<open>
  What the theorems below observe of a node: whether it is the residual addition that
  closes a block, the kernel and stride of a convolution, its bias flag, and the momentum
  argument of a batch normalisation (\<open>Some None\<close>: a batch normalisation made without the
  argument).
\<close>

fun is_add :: "'f node \<Rightarrow> bool" where
  "is_add (ElemwiseAdd _ _) = True"
| "is_add _ = False"

definition residual_blocks :: "'f graph \<Rightarrow> nat" where
  "residual_blocks g = length (filter is_add g)"

fun conv_kernel_stride :: "'f node \<Rightarrow> (shape3 \<times> shape3) option" where
  "conv_kernel_stride (Convolution _ _ k s _ _ _ _ _) = Some (k, s)"
| "conv_kernel_stride _ = None"

fun conv_num_filter :: "'f node \<Rightarrow> int option" where
  "conv_num_filter (Convolution _ nf _ _ _ _ _ _ _) = Some nf"
| "conv_num_filter _ = None"

fun conv_no_bias :: "'f node \<Rightarrow> int option" where
  "conv_no_bias (Convolution _ _ _ _ _ nb _ _ _) = Some nb"
| "conv_no_bias _ = None"

fun is_projection :: "'f node \<Rightarrow> bool" where
  "is_projection (Convolution _ _ k _ _ _ _ _ _) = (k = (1, 1, 1))"
| "is_projection _ = False"

fun bn_momentum :: "'f node \<Rightarrow> 'f option option" where
  "bn_momentum (BatchNorm _ _ _ m _) = Some m"
| "bn_momentum _ = None"

subsection \<open>The nodes a call appends\<close>

text \<open>
  The node sequences that the proofs show the builder to append, written out with the
  position \<open>off\<close> of the first new node. \<open>middle_val\<close> is the middle width when the
  division does not raise, \<open>projects\<close> the condition of line 94.
\<close>

definition middle_val :: "int \<Rightarrow> int \<Rightarrow> int" where
  "middle_val in_filters out_filters =
     (case middle_filters in_filters out_filters of Inr m \<Rightarrow> m | Inl _ \<Rightarrow> 0)"

definition stc_nodes ::
  "'f ModelBuilder \<Rightarrow> sym \<Rightarrow> int \<Rightarrow> int \<Rightarrow> shape3 \<Rightarrow> nat \<Rightarrow> 'f node list" where
  "stc_nodes self body m out_filters stride off =
     [Convolution body m (1, 3, 3) (1, fst (snd stride), snd (snd stride)) (Some (0, 1, 1))
        (no_bias self) (Some (cudnn_tune self)) (Some (workspace self))
        (''comp_'' @ fmt_d (comp_count self) @ ''_conv_'' @ fmt_d (comp_idx self)
           @ ''_middle''),
      BatchNorm off False eps_lit (Some (bn_mom self))
        (''comp_'' @ fmt_d (comp_count self) @ ''_spatbn_'' @ fmt_d (comp_idx self)
           @ ''_middle''),
      Activation (off + 1) ''relu'',
      Convolution (off + 2) out_filters (3, 1, 1) (fst stride, 1, 1) (Some (1, 0, 0))
        (no_bias self) (Some (cudnn_tune self)) (Some (workspace self))
        (''comp_'' @ fmt_d (comp_count self) @ ''_conv_'' @ fmt_d (comp_idx self))]"

definition projects :: "int \<Rightarrow> int \<Rightarrow> bool \<Rightarrow> bool" where
  "projects input_filters num_filters down_sampling \<longleftrightarrow>
     num_filters \<noteq> input_filters \<or> down_sampling"

definition main_nodes ::
  "'f ModelBuilder \<Rightarrow> sym \<Rightarrow> int \<Rightarrow> int \<Rightarrow> int \<Rightarrow> shape3 \<Rightarrow> nat \<Rightarrow> 'f node list" where
  "main_nodes self data m1 m2 num_filters strd off =
     stc_nodes (self\<lparr>comp_idx := 1\<rparr>) data m1 num_filters strd off
     @ [BatchNorm (off + 3) False eps_lit (Some (bn_mom self))
          (''comp_'' @ fmt_d (comp_count self) @ ''_spatbn_'' @ fmt_d 1),
        Activation (off + 4) ''relu'']
     @ stc_nodes (self\<lparr>comp_idx := 2\<rparr>) (off + 5) m2 num_filters (1, 1, 1) (off + 6)
     @ [BatchNorm (off + 9) False eps_lit (Some (bn_mom self))
          (''comp_'' @ fmt_d (comp_count self) @ ''_spatbn_'' @ fmt_d 2)]"

definition block_nodes ::
  "'f ModelBuilder \<Rightarrow> sym \<Rightarrow> int \<Rightarrow> int \<Rightarrow> bool \<Rightarrow> bool \<Rightarrow> nat \<Rightarrow> 'f node list" where
  "block_nodes self data input_filters num_filters down_sampling only_spatial off =
     main_nodes self data (middle_val input_filters num_filters)
        (middle_val num_filters num_filters) num_filters
        (use_striding down_sampling only_spatial) off
     @ (if projects input_filters num_filters down_sampling then
          [Convolution data num_filters (1, 1, 1) (use_striding down_sampling only_spatial)
             None (no_bias self) None None
             (''shortcut_projection_'' @ fmt_d (comp_count self)),
           BatchNorm (off + 11) False eps_lit None
             (''shortcut_projection_'' @ fmt_d (comp_count self) @ ''_spatbn''),
           ElemwiseAdd (off + 12) (off + 10),
           Activation (off + 13) ''relu'']
        else
          [ElemwiseAdd data (off + 10),
           Activation (off + 11) ''relu''])"

definition block_len :: "int \<Rightarrow> int \<Rightarrow> bool \<Rightarrow> nat" where
  "block_len input_filters num_filters down_sampling =
     (if projects input_filters num_filters down_sampling then 15 else 13)"

subsection \<open>Moving a graph behind another\<close>

text \<open>
  \<open>shift k\<close> adds \<open>k\<close> to every input handle of a node: the same node, made after
  \<open>k\<close> other nodes. \<open>relocate p r\<close> is the result \<open>r\<close> of a run from the empty
  graph, placed behind the nodes \<open>p\<close>.
\<close>

fun shift :: "nat \<Rightarrow> 'f node \<Rightarrow> 'f node" where
  "shift k (Var nm dt) = Var nm dt"
| "shift k (Convolution d nf ke st pd nb ct ws nm) = Convolution (d + k) nf ke st pd nb ct ws nm"
| "shift k (BatchNorm d fg e m nm) = BatchNorm (d + k) fg e m nm"
| "shift k (Activation d a) = Activation (d + k) a"
| "shift k (ElemwiseAdd a b) = ElemwiseAdd (a + k) (b + k)"
| "shift k (Pooling d ke st pd pt nm) = Pooling (d + k) ke st pd pt nm"
| "shift k (FullyConnected d nh nm) = FullyConnected (d + k) nh nm"
| "shift k (SoftmaxOutput d l mo ui no nm) = SoftmaxOutput (d + k) (l + k) mo ui no nm"

definition relocate ::
  "'f graph \<Rightarrow> (pyerror + sym) \<times> 'f graph \<Rightarrow> (pyerror + sym) \<times> 'f graph" where
  "relocate p r =
     (case r of (res, g) \<Rightarrow>
        ((case res of Inl e \<Rightarrow> Inl e | Inr h \<Rightarrow> Inr (h + length p)),
         p @ map (shift (length p)) g))"

subsection \<open>The sequence of blocks\<close>

text \<open>
  The loops of \<open>create_r3d\<close> call \<open>add_r3d_block\<close> for a sequence of
  (input filters, output filters, down-sampling) triples; \<open>run_blocks\<close> makes the
  calls for a given sequence, \<open>stage_plan\<close> is the sequence of the four stages, and
  \<open>plan_nodes\<close>, \<open>stem_nodes\<close> and \<open>head_nodes\<close> are the nodes appended.
\<close>

type_synonym plan = "(int \<times> int \<times> bool) list"

fun run_blocks ::
  "plan \<Rightarrow> 'f ModelBuilder \<Rightarrow> sym \<Rightarrow> 'f graph
     \<Rightarrow> (pyerror + sym) \<times> 'f ModelBuilder \<times> 'f graph" where
  "run_blocks [] builder body g = (Inr body, builder, g)"
| "run_blocks ((i, n, ds) # ps) builder body g =
     (case add_r3d_block builder body i n ds True False g of
        (Inl e, builder, g) \<Rightarrow> (Inl e, builder, g)
      | (Inr body, builder, g) \<Rightarrow> run_blocks ps builder body g)"

definition stage_plan :: "int \<Rightarrow> int \<Rightarrow> int \<Rightarrow> int \<Rightarrow> plan" where
  "stage_plan n1 n2 n3 n4 =
     replicate (nat n1) (64, 64, False)
     @ ((64, 128, True) # replicate (nat (n2 - 1)) (128, 128, False))
     @ ((128, 256, True) # replicate (nat (n3 - 1)) (256, 256, False))
     @ ((256, 512, True) # replicate (nat (n4 - 1)) (512, 512, False))"

fun plan_nodes :: "plan \<Rightarrow> 'f ModelBuilder \<Rightarrow> sym \<Rightarrow> nat \<Rightarrow> 'f node list" where
  "plan_nodes [] builder body off = []"
| "plan_nodes ((i, n, ds) # ps) builder body off =
     block_nodes builder body i n ds False off
     @ plan_nodes ps (builder\<lparr>comp_idx := 2, comp_count := comp_count builder + 1\<rparr>)
         (off + block_len i n ds - 1) (off + block_len i n ds)"

fun plan_out :: "plan \<Rightarrow> sym \<Rightarrow> nat \<Rightarrow> sym" where
  "plan_out [] body off = body"
| "plan_out ((i, n, ds) # ps) body off =
     plan_out ps (off + block_len i n ds - 1) (off + block_len i n ds)"

definition plan_len :: "plan \<Rightarrow> nat" where
  "plan_len ps = sum_list (map (\<lambda>(i, n, ds). block_len i n ds) ps)"

definition stem_nodes :: "int \<Rightarrow> 'f \<Rightarrow> string \<Rightarrow> int \<Rightarrow> nat \<Rightarrow> 'f node list" where
  "stem_nodes nb mom tune ws off =
     [Var ''data'' ''float32'',
      Convolution off 45 (1, 7, 7) (1, 2, 2) (Some (0, 3, 3)) nb (Some tune) (Some ws)
        ''conv1_middle'',
      BatchNorm (off + 1) False eps_lit (Some mom) ''conv1_middle_spatbn_relu'',
      Activation (off + 2) ''relu'',
      Convolution (off + 3) 64 (3, 1, 1) (1, 1, 1) (Some (1, 0, 0)) nb (Some tune) (Some ws)
        ''conv1'',
      BatchNorm (off + 4) False eps_lit (Some mom) ''conv1_spatbn_relu'',
      Activation (off + 5) ''relu'']"

definition head_nodes :: "int \<Rightarrow> int \<Rightarrow> int \<Rightarrow> sym \<Rightarrow> nat \<Rightarrow> 'f node list" where
  "head_nodes num_class final_spatial_kernel final_temporal_kernel body off =
     [Pooling body (final_temporal_kernel, final_spatial_kernel, final_spatial_kernel)
        (1, 1, 1) (0, 0, 0) ''avg'' ''final_pool'',
      FullyConnected off num_class ''final_fc'',
      Var ''softmax_label'' ''float32'',
      SoftmaxOutput (off + 1) (off + 2) True True ''null'' ''softmax'']"

definition r3d_nodes ::
  "int \<Rightarrow> int \<Rightarrow> plan \<Rightarrow> int \<Rightarrow> int \<Rightarrow> 'f \<Rightarrow> string \<Rightarrow> int \<Rightarrow> nat \<Rightarrow> 'f node list" where
  "r3d_nodes num_class nb ps final_spatial_kernel final_temporal_kernel mom tune ws off =
     stem_nodes nb mom tune ws off
     @ plan_nodes ps (ModelBuilder_init nb mom tune ws) (off + 6) (off + 7)
     @ head_nodes num_class final_spatial_kernel final_temporal_kernel
         (plan_out ps (off + 6) (off + 7))
         (off + 7 + plan_len ps)"

definition small_plan :: "plan \<Rightarrow> bool" where
  "small_plan ps =
     list_all (\<lambda>(i, n, ds). 0 < i \<and> 0 < n \<and> 3 * i * n * 9 < 2 ^ 53 \<and> 3 * n * n * 9 < 2 ^ 53) ps"

subsection \<open>Names and widths read off a graph\<close>

text \<open>
  The names of one block with counter \<open>c\<close> (\<open>p\<close>: with a shortcut projection), of a
  sequence of blocks, and of the whole graph; \<open>name_block\<close> reads the decimal counter
  back out of a block's name.
\<close>

definition block_names :: "int \<Rightarrow> bool \<Rightarrow> string list" where
  "block_names c p =
     [''comp_'' @ fmt_d c @ ''_conv_'' @ fmt_d 1 @ ''_middle'',
      ''comp_'' @ fmt_d c @ ''_spatbn_'' @ fmt_d 1 @ ''_middle'',
      ''comp_'' @ fmt_d c @ ''_conv_'' @ fmt_d 1,
      ''comp_'' @ fmt_d c @ ''_spatbn_'' @ fmt_d 1,
      ''comp_'' @ fmt_d c @ ''_conv_'' @ fmt_d 2 @ ''_middle'',
      ''comp_'' @ fmt_d c @ ''_spatbn_'' @ fmt_d 2 @ ''_middle'',
      ''comp_'' @ fmt_d c @ ''_conv_'' @ fmt_d 2,
      ''comp_'' @ fmt_d c @ ''_spatbn_'' @ fmt_d 2]
     @ (if p then [''shortcut_projection_'' @ fmt_d c,
                   ''shortcut_projection_'' @ fmt_d c @ ''_spatbn'']
        else [])"

fun plan_names :: "plan \<Rightarrow> int \<Rightarrow> string list" where
  "plan_names [] c = []"
| "plan_names ((i, n, ds) # ps) c = block_names c (projects i n ds) @ plan_names ps (c + 1)"

definition r3d_names :: "plan \<Rightarrow> string list" where
  "r3d_names ps =
     [''data'', ''conv1_middle'', ''conv1_middle_spatbn_relu'', ''conv1'', ''conv1_spatbn_relu'']
     @ plan_names ps 0
     @ [''final_pool'', ''final_fc'', ''softmax_label'', ''softmax'']"

definition is_digit :: "char \<Rightarrow> bool" where
  "is_digit c \<longleftrightarrow> c \<in> set ''0123456789''"

definition name_block :: "string \<Rightarrow> string" where
  "name_block x =
     (if take 5 x = ''comp_'' then takeWhile is_digit (drop 5 x)
      else takeWhile is_digit (drop 20 x))"

text \<open>
  The number of channels of the value of every node, as far as the graph determines it:
  a convolution produces \<open>num_filter\<close> channels, normalisation, activation, pooling and
  the residual addition keep the channels of their input. \<open>block_widths\<close> lists, for
  every residual addition in creation order, the channels of the block's input (the
  shortcut, or the input of the projection when the shortcut is projected) and of the
  block's output.
\<close>

definition lookup :: "'a option list \<Rightarrow> nat \<Rightarrow> 'a option" where
  "lookup tab i = (if i < length tab then tab ! i else None)"

fun node_channels :: "int option list \<Rightarrow> 'f node \<Rightarrow> int option" where
  "node_channels tab (Var _ _) = None"
| "node_channels tab (Convolution _ nf _ _ _ _ _ _ _) = Some nf"
| "node_channels tab (BatchNorm d _ _ _ _) = lookup tab d"
| "node_channels tab (Activation d _) = lookup tab d"
| "node_channels tab (ElemwiseAdd a b) = lookup tab b"
| "node_channels tab (Pooling d _ _ _ _ _) = lookup tab d"
| "node_channels tab (FullyConnected _ nh _) = Some nh"
| "node_channels tab (SoftmaxOutput d _ _ _ _ _) = lookup tab d"

definition channels :: "'f graph \<Rightarrow> int option list" where
  "channels g = foldl (\<lambda>tab x. tab @ [node_channels tab x]) [] g"

fun projection_input :: "'f node \<Rightarrow> sym option" where
  "projection_input (Convolution x _ k _ _ _ _ _ _) = (if k = (1, 1, 1) then Some x else None)"
| "projection_input _ = None"

fun bn_input :: "'f node \<Rightarrow> sym option" where
  "bn_input (BatchNorm d _ _ _ _) = Some d"
| "bn_input _ = None"

definition block_input :: "'f graph \<Rightarrow> sym \<Rightarrow> sym" where
  "block_input g sc =
     (if sc < length g then
        (case bn_input (g ! sc) of
           None \<Rightarrow> sc
         | Some d \<Rightarrow>
             (if d < length g then
                (case projection_input (g ! d) of None \<Rightarrow> sc | Some x \<Rightarrow> x)
              else sc))
      else sc)"

fun add_widths :: "'f graph \<Rightarrow> int option list \<Rightarrow> 'f node \<Rightarrow> (int option \<times> int option) list" where
  "add_widths g tab (ElemwiseAdd a b) = [(lookup tab (block_input g a), lookup tab b)]"
| "add_widths g tab _ = []"

definition block_widths :: "'f graph \<Rightarrow> (int option \<times> int option) list" where
  "block_widths g = concat (map (add_widths g (channels g)) g)"

text \<open>
  The batch normalisation of a shortcut projection is the one named
  \<open>shortcut_projection_<c>_spatbn\<close>.
\<close>

fun is_shortcut_bn :: "'f node \<Rightarrow> bool" where
  "is_shortcut_bn (BatchNorm _ _ _ _ nm) = (take 20 nm = ''shortcut_projection_'')"
| "is_shortcut_bn _ = False"

definition momentum_ok :: "'f \<Rightarrow> 'f node \<Rightarrow> bool" where
  "momentum_ok m x =
     (if is_shortcut_bn x then bn_momentum x = Some None
      else bn_momentum x = None \<or> bn_momentum x = Some (Some m))"

subsection \<open>The names the engine gives\<close>

text \<open>
  The engine is not part of the repository. Its constructors name a node themselves when
  the program passes no \<open>name\<close>: the name manager (\<open>NameManager.get\<close>) returns a
  given name as it is, and otherwise the operator's hint followed by the counter it keeps
  for that hint, which it then advances. The counters live as long as the session, across
  the calls of \<open>create_r3d\<close>. The program leaves two kinds of nodes unnamed: the
  activations (hint \<open>activation\<close>) and the additions \<open>shortcut + body\<close> (hint
  \<open>_plus\<close>). \<open>engine_names c g\<close> are the names of the nodes \<open>g\<close>, made in this
  order by a name manager with the counters \<open>c\<close>; \<open>counters_after c g\<close> are its
  counters afterwards.
\<close>

type_synonym counters = "string \<Rightarrow> nat"

definition fresh_counters :: counters where
  "fresh_counters = (\<lambda>hint. 0)"

definition NameManager_get :: "string option \<Rightarrow> string \<Rightarrow> counters \<Rightarrow> string \<times> counters" where
  "NameManager_get name hint c =
     (case name of
        Some nm \<Rightarrow> (nm, c)
      | None \<Rightarrow> (hint @ fmt_d (int (c hint)), c(hint := c hint + 1)))"

fun node_hint :: "'f node \<Rightarrow> string" where
  "node_hint (Var _ _) = ''null''"
| "node_hint (Convolution _ _ _ _ _ _ _ _ _) = ''convolution''"
| "node_hint (BatchNorm _ _ _ _ _) = ''batchnorm''"
| "node_hint (Activation _ _) = ''activation''"
| "node_hint (ElemwiseAdd _ _) = ''_plus''"
| "node_hint (Pooling _ _ _ _ _ _) = ''pooling''"
| "node_hint (FullyConnected _ _ _) = ''fullyconnected''"
| "node_hint (SoftmaxOutput _ _ _ _ _ _) = ''softmaxoutput''"

fun engine_names :: "counters \<Rightarrow> 'f graph \<Rightarrow> string list" where
  "engine_names c [] = []"
| "engine_names c (n # g) =
     fst (NameManager_get (node_name n) (node_hint n) c)
     # engine_names (snd (NameManager_get (node_name n) (node_hint n) c)) g"

fun counters_after :: "counters \<Rightarrow> 'f graph \<Rightarrow> counters" where
  "counters_after c [] = c"
| "counters_after c (n # g) =
     counters_after (snd (NameManager_get (node_name n) (node_hint n) c)) g"

text \<open>
  \<open>bump c a p\<close> are the counters \<open>c\<close> after \<open>a\<close> more activations and \<open>p\<close> more
  additions.
\<close>

definition bump :: "counters \<Rightarrow> nat \<Rightarrow> nat \<Rightarrow> counters" where
  "bump c a p =
     (\<lambda>hint. c hint + (if hint = ''activation'' then a else if hint = ''_plus'' then p else 0))"

section \<open>Properties\<close>

subsection \<open>The middle width\<close>

lemma log2_bounds: "0 < n \<Longrightarrow> 2 ^ log2 n \<le> n \<and> n < 2 * 2 ^ log2 n"
proof (induction n rule: log2.induct)
  case (1 n)
  show ?case
  proof (cases "n < 2")
    case True
    with "1.prems" show ?thesis by (simp add: log2.simps [of n])
  next
    case False
    then have "0 < n div 2" by simp
    from "1.IH" [OF False this]
    have "2 ^ log2 (n div 2) \<le> n div 2" and "n div 2 < 2 * 2 ^ log2 (n div 2)" by simp_all
    then have "2 * 2 ^ log2 (n div 2) \<le> n" and "n < 2 * (2 * 2 ^ log2 (n div 2))" by linarith+
    with False show ?thesis by (simp add: log2.simps [of n])
  qed
qed

lemma round_half_even_lower: "\<lfloor>y\<rfloor> \<le> round_half_even y"
  by (simp add: round_half_even_def Let_def)

lemma round_half_even_upper: "of_int (round_half_even y) \<le> y + 1 / 2"
proof -
  have fl: "of_int \<lfloor>y\<rfloor> \<le> y" by simp
  show ?thesis
  proof (cases "y - of_int \<lfloor>y\<rfloor> < 1 / 2")
    case True
    then have "round_half_even y = \<lfloor>y\<rfloor>" by (simp add: round_half_even_def Let_def)
    then have "rat_of_int (round_half_even y) = of_int \<lfloor>y\<rfloor>" by simp
    with fl show ?thesis by linarith
  next
    case False
    then have "of_int \<lfloor>y\<rfloor> + 1 \<le> y + 1 / 2" by simp
    moreover have "round_half_even y \<le> \<lfloor>y\<rfloor> + 1"
      by (simp add: round_half_even_def Let_def)
    then have "(of_int (round_half_even y) :: rat) \<le> of_int (\<lfloor>y\<rfloor> + 1)"
      by (simp only: of_int_le_iff)
    ultimately show ?thesis by simp
  qed
qed

lemma pow2_nonpos: "k \<le> 0 \<Longrightarrow> pow2 k = 1 / 2 ^ nat (- k)"
  by (cases "k = 0") (simp_all add: pow2_def)

lemma round_double_small:
  fixes n d :: int
  assumes d: "0 < d" and dn: "d \<le> n" and n: "n < 2 ^ 53"
  shows "of_int (n div d) \<le> round_double (of_int n / of_int d)
       \<and> round_double (of_int n / of_int d) < of_int (n div d) + 1"
proof -
  define x :: rat where "x = of_int n / of_int d"
  define k where "k = n div d"
  define m0 where "m0 = nat \<lfloor>x\<rfloor>"
  define j where "j = 52 - log2 m0"
  have dpos: "(0::rat) < of_int d" using d by simp
  have x1: "1 \<le> x"
    unfolding x_def using d dn dpos by (simp add: le_divide_eq)
  have kfl: "\<lfloor>x\<rfloor> = k"
    unfolding x_def k_def by (rule floor_divide_of_int_eq)
  have kx: "of_int k \<le> x" and xk: "x < of_int k + 1"
    using kfl by linarith+
  have k1: "1 \<le> k" using x1 kfl by linarith
  have m0k: "int m0 = k" unfolding m0_def using kfl k1 by simp
  have m0pos: "0 < m0" using m0k k1 by linarith
  have xd: "x * of_int d = of_int n"
    unfolding x_def using dpos by simp
  from log2_bounds [OF m0pos] have lo: "2 ^ log2 m0 \<le> m0" by simp
  have "int (2 ^ log2 m0) \<le> int m0" using lo by (simp only: of_nat_le_iff)
  then have "(2::int) ^ log2 m0 \<le> k" using m0k by simp
  then have "rat_of_int (2 ^ log2 m0) \<le> rat_of_int k" by (simp only: of_int_le_iff)
  then have "(2::rat) ^ log2 m0 \<le> rat_of_int k" by simp
  with kx have pow_le_x: "(2::rat) ^ log2 m0 \<le> x" by linarith
  have pow_d_le_n: "2 ^ log2 m0 * d \<le> n"
  proof -
    have "(2::rat) ^ log2 m0 * of_int d \<le> x * of_int d"
      using pow_le_x dpos by (intro mult_right_mono) simp_all
    then have "rat_of_int (2 ^ log2 m0 * d) \<le> rat_of_int n"
      unfolding xd by simp
    then show ?thesis by (simp only: of_int_le_iff)
  qed
  have lg: "log2 m0 < 53"
  proof (rule ccontr)
    assume "\<not> log2 m0 < 53"
    then have a: "(2::int) ^ 53 \<le> 2 ^ log2 m0" by (intro power_increasing) simp_all
    have "(2::int) ^ log2 m0 * 1 \<le> 2 ^ log2 m0 * d"
      using d by (intro mult_left_mono) simp_all
    then have b: "(2::int) ^ log2 m0 \<le> 2 ^ log2 m0 * d" by simp
    from a b pow_d_le_n n show False by linarith
  qed
  have ex: "exponent x = int (log2 m0)"
    using x1 by (simp add: exponent_def m0_def)
  have ue: "max (exponent x - 52) (- 1074) = - int j"
    unfolding ex j_def using lg by simp
  have ulp: "pow2 (max (exponent x - 52) (- 1074)) = 1 / 2 ^ j"
    unfolding ue by (subst pow2_nonpos) simp_all
  define m where "m = round_half_even (x * 2 ^ j)"
  have rd: "round_double x = of_int m / 2 ^ j"
    using x1 by (simp add: round_double_def ulp m_def Let_def)
  have "of_int (k * 2 ^ j) \<le> x * 2 ^ j"
    using kx by simp
  then have "k * 2 ^ j \<le> \<lfloor>x * 2 ^ j\<rfloor>" by (simp only: le_floor_iff)
  then have mlo: "k * 2 ^ j \<le> m"
    unfolding m_def using round_half_even_lower [of "x * 2 ^ j"] by linarith
  have jl: "log2 m0 + j = 52" unfolding j_def using lg by simp
  have d_small: "d < 2 * 2 ^ j"
  proof -
    have "2 ^ log2 m0 * d < 2 ^ 53" using pow_d_le_n n by simp
    also have "(2::int) ^ 53 = 2 ^ log2 m0 * (2 * 2 ^ j)"
    proof -
      have "(53::nat) = log2 m0 + Suc j" using jl by simp
      then show ?thesis by (simp only: power_add power_Suc)
    qed
    finally show ?thesis by simp
  qed
  have gap: "1 \<le> (of_int k + 1 - x) * of_int d"
  proof -
    have "x * of_int d < (of_int k + 1) * of_int d"
      using xk dpos by (intro mult_strict_right_mono) simp_all
    then have "rat_of_int n < rat_of_int ((k + 1) * d)" unfolding xd by simp
    then have "n < (k + 1) * d" by (simp only: of_int_less_iff)
    then have "n + 1 \<le> (k + 1) * d" by simp
    then have "rat_of_int (n + 1) \<le> rat_of_int ((k + 1) * d)" by (simp only: of_int_le_iff)
    then have "x * of_int d + 1 \<le> (of_int k + 1) * of_int d" unfolding xd by simp
    then show ?thesis by (simp add: algebra_simps)
  qed
  have half: "x * 2 ^ j + 1 / 2 < (of_int k + 1) * 2 ^ j"
  proof -
    have "rat_of_int d < rat_of_int (2 * 2 ^ j)" using d_small by (simp only: of_int_less_iff)
    then have "rat_of_int d < 2 * 2 ^ j" by simp
    then have "(of_int k + 1 - x) * of_int d < (of_int k + 1 - x) * (2 * 2 ^ j)"
      using xk by (intro mult_strict_left_mono) simp_all
    with gap have "1 < (of_int k + 1 - x) * (2 * 2 ^ j)" by linarith
    then show ?thesis by (simp add: algebra_simps)
  qed
  have mhi: "rat_of_int m < (of_int k + 1) * 2 ^ j"
    using round_half_even_upper [of "x * 2 ^ j"] half unfolding m_def by linarith
  have p: "(0::rat) < 2 ^ j" by simp
  have "rat_of_int (k * 2 ^ j) \<le> rat_of_int m" using mlo by (simp only: of_int_le_iff)
  then have a: "of_int k \<le> round_double x"
    unfolding rd using p by (simp add: le_divide_eq)
  have b: "round_double x < of_int k + 1"
    unfolding rd using p mhi by (simp add: divide_less_eq)
  show ?thesis using a b unfolding x_def k_def by simp
qed

lemma py_truediv_small:
  fixes n d :: int
  assumes d: "0 < d" and dn: "d \<le> n" and n: "n < 2 ^ 53"
  shows "\<exists>r. py_truediv n d = Inr r \<and> py_int r = n div d"
proof -
  let ?r = "round_double (of_int n / of_int d)"
  from round_double_small [OF assms]
  have lo: "of_int (n div d) \<le> ?r" and hi: "?r < of_int (n div d) + 1" by simp_all
  have k0: "0 \<le> n div d" using d dn by (simp add: pos_imp_zdiv_nonneg_iff)
  then have r0: "0 \<le> ?r" using lo by linarith
  have "n div d \<le> n" using zdiv_mono2 [of n 1 d] d dn by simp
  then have "n div d + 1 \<le> 2 ^ 53" using n by simp
  then have "rat_of_int (n div d + 1) \<le> rat_of_int (2 ^ 53)" by (simp only: of_int_le_iff)
  then have "?r < 2 ^ 53" using hi by simp
  moreover have "(2::rat) ^ 53 \<le> 2 ^ 1024" by (intro power_increasing) simp_all
  ultimately have small: "\<not> 2 ^ 1024 \<le> \<bar>?r\<bar>" using r0 by simp
  have fl: "\<lfloor>?r\<rfloor> = n div d" using lo hi by (simp add: floor_unique)
  show ?thesis
    using d small r0 fl by (simp add: py_truediv_def py_int_def Let_def)
qed

lemma middle_filters_small:
  assumes "0 < a" and "0 < b" and "3 * a * b * 9 < 2 ^ 53"
  shows "middle_filters a b = Inr ((3 * a * b * 9) div (a * 9 + 3 * b))"
proof -
  let ?n = "3 * a * b * 3 * 3"
  let ?d = "a * 3 * 3 + 3 * b"
  have d: "0 < ?d" using assms by simp
  have "1 * a \<le> b * a" using assms by (intro mult_right_mono) simp_all
  then have ab: "a \<le> a * b" by (simp add: mult.commute)
  have "1 * b \<le> a * b" using assms by (intro mult_right_mono) simp_all
  then have ba: "b \<le> a * b" by simp
  have nn: "?n = 27 * (a * b)" by simp
  have dd: "?d = 9 * a + 3 * b" by simp
  have dn: "?d \<le> ?n" unfolding nn dd using ab ba assms(1) by linarith
  have n: "?n < 2 ^ 53" using assms(3) unfolding nn by simp
  from py_truediv_small [OF d dn n] obtain r
    where "py_truediv ?n ?d = Inr r" and "py_int r = ?n div ?d"
    by blast
  then have "middle_filters a b = Inr (?n div ?d)"
    by (simp add: middle_filters_def Let_def)
  then show ?thesis by (simp add: mult.assoc)
qed

lemma round_half_even_unique:
  assumes "of_int M - 1 / 2 < y" and "y < of_int M + 1 / 2"
  shows "round_half_even y = M"
proof (cases "of_int M \<le> y")
  case True
  with assms have "\<lfloor>y\<rfloor> = M" by (intro floor_unique) linarith+
  moreover from assms have "y - of_int M < 1 / 2" by linarith
  ultimately show ?thesis by (simp add: round_half_even_def Let_def)
next
  case False
  have m1: "rat_of_int (M - 1) = of_int M - 1" by simp
  have "rat_of_int (M - 1) \<le> y" and "y < rat_of_int (M - 1) + 1"
    unfolding m1 using assms False by linarith+
  then have fl: "\<lfloor>y\<rfloor> = M - 1" by (rule floor_unique)
  from assms have "1 / 2 < y - of_int (M - 1)" unfolding m1 by linarith
  then have "\<not> y - of_int (M - 1) < 1 / 2" by linarith
  with \<open>1 / 2 < y - of_int (M - 1)\<close> show ?thesis
    unfolding round_half_even_def Let_def fl by simp
qed

lemma middle_val_small:
  assumes "0 < a" and "0 < b" and "3 * a * b * 9 < 2 ^ 53"
  shows "middle_val a b = (3 * a * b * 9) div (a * 9 + 3 * b)"
  using middle_filters_small [OF assms] by (simp add: middle_val_def)

lemma small_middle:
  assumes "0 < a" and "0 < b" and "3 * a * b * 9 < 2 ^ 53"
  shows "middle_filters a b = Inr (middle_val a b)"
  using middle_filters_small [OF assms] by (simp add: middle_val_def)

lemma log2_cx: "log2 1416068397 = 30"
  by (simp add: log2.simps)

lemma round_double_cx:
  "round_double (rat_of_int 8036275860014093010 / rat_of_int 5675061933) = 1416068398"
proof -
  define x :: rat where "x = rat_of_int 8036275860014093010 / rat_of_int 5675061933"
  have fl: "\<lfloor>x\<rfloor> = 1416068397"
    unfolding x_def floor_divide_of_int_eq by simp
  have x1: "1 \<le> x" unfolding x_def by simp
  have e: "exponent x = 30"
    using x1 by (simp add: exponent_def fl log2_cx)
  have ulp: "pow2 (max (exponent x - 52) (- 1074)) = 1 / 2 ^ 22"
    unfolding e by (simp add: pow2_def)
  have rh: "round_half_even (x * 4194304) = 5939421346004992"
    by (rule round_half_even_unique) (simp_all add: x_def)
  have "round_double x = of_int 5939421346004992 * (1 / 2 ^ 22)"
    using x1 by (simp add: round_double_def ulp rh Let_def)
  also have "\<dots> = 1416068398" by simp
  finally show ?thesis unfolding x_def .
qed

lemma middle_filters_cx: "middle_filters 301534782 987082965 = Inr 1416068398"
proof -
  have n: "(3 * 301534782 * 987082965 * 3 * 3 :: int) = 8036275860014093010" by simp
  have d: "(301534782 * 3 * 3 + 3 * 987082965 :: int) = 5675061933" by simp
  have "py_truediv 8036275860014093010 5675061933 = Inr 1416068398"
    unfolding py_truediv_def round_double_cx by simp
  then show ?thesis
    unfolding middle_filters_def n d by (simp add: py_int_def)
qed

subsection \<open>What one call appends\<close>

lemma length_stc_nodes [simp]: "length (stc_nodes self body m outf stride off) = 4"
  by (simp add: stc_nodes_def)

lemma add_spatial_temporal_conv_Inr:
  assumes "middle_filters i outf = Inr m"
  shows "add_spatial_temporal_conv self body i outf stride g =
    (Inr (length g + 3), self\<lparr>comp_idx := comp_idx self + 1\<rparr>,
     g @ stc_nodes (self\<lparr>comp_idx := comp_idx self + 1\<rparr>) body m outf stride (length g))"
  using assms
  by (cases stride) (simp add: add_spatial_temporal_conv_def emit_def stc_nodes_def Let_def)

lemma add_spatial_temporal_conv_Inl:
  assumes "middle_filters i outf = Inl e"
  shows "add_spatial_temporal_conv self body i outf stride g =
    (Inl e, self\<lparr>comp_idx := comp_idx self + 1\<rparr>, g)"
  using assms by (simp add: add_spatial_temporal_conv_def Let_def)

lemma length_main_nodes [simp]: "length (main_nodes self data m1 m2 n strd off) = 11"
  by (simp add: main_nodes_def)

lemma length_block_nodes [simp]:
  "length (block_nodes self data i n ds osd off) = block_len i n ds"
  by (simp add: block_nodes_def block_len_def)

lemma add_r3d_block_Inr:
  assumes "middle_filters i n = Inr m1" and "middle_filters n n = Inr m2"
  shows "add_r3d_block self data i n ds sbn osd g =
    (Inr (length g + block_len i n ds - 1),
     self\<lparr>comp_idx := 2, comp_count := comp_count self + 1\<rparr>,
     g @ block_nodes self data i n ds osd (length g))"
  using assms
  by (simp add: add_r3d_block_def add_spatial_temporal_conv_Inr emit_def Let_def
      block_nodes_def main_nodes_def projects_def stc_nodes_def block_len_def middle_val_def)

lemma add_r3d_block_Inr_cases:
  assumes "add_r3d_block self data i n ds sbn osd g = (Inr out, self', g')"
  shows "out = length g + block_len i n ds - 1
       \<and> self' = self\<lparr>comp_idx := 2, comp_count := comp_count self + 1\<rparr>
       \<and> g' = g @ block_nodes self data i n ds osd (length g)"
proof (cases "middle_filters i n")
  case (Inl e)
  with assms show ?thesis
    by (simp add: add_r3d_block_def add_spatial_temporal_conv_Inl Let_def)
next
  case m1: (Inr m1)
  show ?thesis
  proof (cases "middle_filters n n")
    case (Inl e)
    with assms m1 show ?thesis
      by (simp add: add_r3d_block_def add_spatial_temporal_conv_Inl
          add_spatial_temporal_conv_Inr emit_def Let_def)
  next
    case (Inr m2)
    from add_r3d_block_Inr [OF m1 Inr, of self data ds sbn osd g] assms
    show ?thesis by simp
  qed
qed

subsection \<open>The whole construction\<close>


lemma block_loop_run_blocks:
  "block_loop k b body c g = run_blocks (replicate k (c, c, False)) b body g"
  by (induction k arbitrary: b body g) (simp_all split: prod.splits sum.splits)

lemma run_blocks_append:
  "run_blocks (ps @ qs) b body g =
     (case run_blocks ps b body g of
        (Inl e, b', g') \<Rightarrow> (Inl e, b', g')
      | (Inr body', b', g') \<Rightarrow> run_blocks qs b' body' g')"
  by (induction ps b body g rule: run_blocks.induct) (simp_all split: prod.splits sum.splits)

lemma stage_run_blocks:
  "stage n b body ci co g =
     run_blocks ((ci, co, True) # replicate (nat (n - 1)) (co, co, False)) b body g"
  by (simp add: stage_def block_loop_run_blocks split: prod.splits sum.splits)

lemma create_r3d_None:
  assumes "BLOCK_CONFIG d = None"
  shows "create_r3d nc nb d fsk ftk mom tune ws g =
           (Inl (KeyError d), g @ stem_nodes nb mom tune ws (length g))"
  using assms by (simp add: create_r3d_def emit_def stem_nodes_def)

lemma blocks_chain:
  "(case block_loop k1 b0 h 64 G of (Inl e, b, g) \<Rightarrow> (Inl e, g) | (Inr body, b, g) \<Rightarrow>
     (case stage n2 b body 64 128 g of (Inl e, b, g) \<Rightarrow> (Inl e, g) | (Inr body, b, g) \<Rightarrow>
     (case stage n3 b body 128 256 g of (Inl e, b, g) \<Rightarrow> (Inl e, g) | (Inr body, b, g) \<Rightarrow>
     (case stage n4 b body 256 512 g of (Inl e, b, g) \<Rightarrow> (Inl e, g)
      | (Inr body, b, g) \<Rightarrow> K body g))))
   = (case run_blocks
             (replicate k1 (64, 64, False)
              @ ((64, 128, True) # replicate (nat (n2 - 1)) (128, 128, False))
              @ ((128, 256, True) # replicate (nat (n3 - 1)) (256, 256, False))
              @ ((256, 512, True) # replicate (nat (n4 - 1)) (512, 512, False))) b0 h G of
        (Inl e, b, g) \<Rightarrow> (Inl e, g)
      | (Inr body, b, g) \<Rightarrow> K body g)"
  unfolding run_blocks_append stage_run_blocks block_loop_run_blocks
  by (simp split: prod.splits sum.splits)

lemma create_r3d_Some:
  assumes "BLOCK_CONFIG d = Some (n1, n2, n3, n4)"
  shows "create_r3d nc nb d fsk ftk mom tune ws g =
     (case run_blocks (stage_plan n1 n2 n3 n4) (ModelBuilder_init nb mom tune ws)
             (length g + 6) (g @ stem_nodes nb mom tune ws (length g)) of
        (Inl e, b', g') \<Rightarrow> (Inl e, g')
      | (Inr body, b', g') \<Rightarrow>
          (Inr (length g' + 3), g' @ head_nodes nc fsk ftk body (length g')))"
  using assms
  by (simp add: create_r3d_def blocks_chain emit_def stem_nodes_def head_nodes_def
      stage_plan_def Let_def eval_nat_numeral split: prod.split sum.split)

lemma run_blocks_small:
  assumes "small_plan ps"
  shows "fst (run_blocks ps b body g) = Inr (plan_out ps body (length g))
       \<and> snd (snd (run_blocks ps b body g)) = g @ plan_nodes ps b body (length g)"
  using assms
proof (induction ps arbitrary: b body g)
  case Nil
  then show ?case by simp
next
  case (Cons p ps)
  obtain i n ds where p: "p = (i, n, ds)" by (cases p)
  from Cons.prems p have pos: "0 < i" "0 < n"
    and small: "3 * i * n * 9 < 2 ^ 53" "3 * n * n * 9 < 2 ^ 53"
    and rest: "small_plan ps"
    by (simp_all add: small_plan_def)
  have blk: "add_r3d_block b body i n ds True False g =
    (Inr (length g + block_len i n ds - 1),
     b\<lparr>comp_idx := 2, comp_count := comp_count b + 1\<rparr>,
     g @ block_nodes b body i n ds False (length g))"
    by (rule add_r3d_block_Inr [OF small_middle [OF pos small(1)]
          small_middle [OF pos(2) pos(2) small(2)]])
  show ?case
    using Cons.IH [OF rest] by (simp add: p blk)
qed

lemma small_stage_plan: "small_plan (stage_plan n1 n2 n3 n4)"
  by (auto simp: small_plan_def stage_plan_def list_all_iff)

lemma length_stem_nodes [simp]: "length (stem_nodes nb mom tune ws off) = 7"
  by (simp add: stem_nodes_def)

lemma length_head_nodes [simp]: "length (head_nodes nc fsk ftk body off) = 4"
  by (simp add: head_nodes_def)

lemma length_plan_nodes [simp]: "length (plan_nodes ps b body off) = plan_len ps"
  by (induction ps b body off rule: plan_nodes.induct) (simp_all add: plan_len_def)

lemma create_r3d_supported:
  assumes "BLOCK_CONFIG d = Some (n1, n2, n3, n4)"
  shows "create_r3d nc nb d fsk ftk mom tune ws g =
     (Inr (length g + plan_len (stage_plan n1 n2 n3 n4) + 10),
      g @ r3d_nodes nc nb (stage_plan n1 n2 n3 n4) fsk ftk mom tune ws (length g))"
proof -
  let ?ps = "stage_plan n1 n2 n3 n4"
  let ?b = "ModelBuilder_init nb mom tune ws"
  let ?g1 = "g @ stem_nodes nb mom tune ws (length g)"
  have len: "length ?g1 = length g + 7" by simp
  obtain r b' g' where run: "run_blocks ?ps ?b (length g + 6) ?g1 = (r, b', g')"
    by (cases "run_blocks ?ps ?b (length g + 6) ?g1")
  from run_blocks_small [OF small_stage_plan, of n1 n2 n3 n4 ?b "length g + 6" ?g1] run
  have r: "r = Inr (plan_out ?ps (length g + 6) (length g + 7))"
    and g': "g' = ?g1 @ plan_nodes ?ps ?b (length g + 6) (length g + 7)"
    unfolding len by simp_all
  have lg': "length g' = length g + 7 + plan_len ?ps"
    unfolding g' by simp
  show ?thesis
    unfolding create_r3d_Some [OF assms] run r lg'
    by (simp add: r3d_nodes_def g' add.assoc)
qed

subsection \<open>Relocation\<close>

lemma block_len_pos: "0 < block_len i n ds"
  by (simp add: block_len_def)

lemma shift_stc_nodes:
  "map (shift k) (stc_nodes b body m n strd off) = stc_nodes b (body + k) m n strd (off + k)"
  by (simp add: stc_nodes_def)

lemma shift_main_nodes:
  "map (shift k) (main_nodes b data m1 m2 n strd off) =
     main_nodes b (data + k) m1 m2 n strd (off + k)"
  by (simp add: main_nodes_def shift_stc_nodes add.assoc add.commute add.left_commute)

lemma shift_block_nodes:
  "map (shift k) (block_nodes b data i n ds osd off) =
     block_nodes b (data + k) i n ds osd (off + k)"
  by (simp add: block_nodes_def shift_main_nodes add.assoc add.commute add.left_commute)

lemma shift_plan_nodes:
  "map (shift k) (plan_nodes ps b body off) = plan_nodes ps b (body + k) (off + k)"
proof (induction ps b body off rule: plan_nodes.induct)
  case (1 b body off)
  show ?case by simp
next
  case (2 i n ds ps b body off)
  have e1: "off + block_len i n ds + k - 1 = off + block_len i n ds - 1 + k"
    using block_len_pos [of i n ds] by simp
  have e2: "off + k + block_len i n ds = off + block_len i n ds + k"
    by simp
  show ?case
    by (simp only: plan_nodes.simps map_append shift_block_nodes "2.IH" e1 e2)
qed

lemma shift_plan_out:
  "plan_out ps (body + k) (off + k) = plan_out ps body off + k"
proof (induction ps body off rule: plan_out.induct)
  case (1 body off)
  show ?case by simp
next
  case (2 i n ds ps body off)
  have e1: "off + block_len i n ds + k - 1 = off + block_len i n ds - 1 + k"
    using block_len_pos [of i n ds] by simp
  have e2: "off + k + block_len i n ds = off + block_len i n ds + k"
    by simp
  show ?case
    by (simp only: plan_out.simps "2.IH" e1 e2)
qed

lemma shift_stem_nodes:
  "map (shift k) (stem_nodes nb mom tune ws off) = stem_nodes nb mom tune ws (off + k)"
  by (simp add: stem_nodes_def add.assoc add.commute add.left_commute)

lemma shift_head_nodes:
  "map (shift k) (head_nodes nc fsk ftk body off) = head_nodes nc fsk ftk (body + k) (off + k)"
  by (simp add: head_nodes_def add.assoc add.commute add.left_commute)

lemma shift_r3d_nodes:
  "map (shift k) (r3d_nodes nc nb ps fsk ftk mom tune ws off) =
     r3d_nodes nc nb ps fsk ftk mom tune ws (off + k)"
proof -
  have a: "off + k + 6 = off + 6 + k" "off + k + 7 = off + 7 + k"
    "off + 7 + k + plan_len ps = off + 7 + plan_len ps + k"
    by simp_all
  show ?thesis
    unfolding r3d_nodes_def a
    by (simp add: shift_stem_nodes shift_plan_nodes shift_head_nodes shift_plan_out)
qed

lemma create_r3d_relocate:
  "create_r3d nc nb d fsk ftk mom tune ws g =
     relocate g (create_r3d nc nb d fsk ftk mom tune ws [])"
proof (cases "BLOCK_CONFIG d")
  case None
  show ?thesis
    using shift_stem_nodes [of "length g" nb mom tune ws 0]
    by (simp add: create_r3d_None [OF None] relocate_def)
next
  case (Some ns)
  obtain n1 n2 n3 n4 where ns: "ns = (n1, n2, n3, n4)" by (cases ns)
  note s = Some [unfolded ns]
  show ?thesis
    using shift_r3d_nodes [of "length g" nc nb "stage_plan n1 n2 n3 n4" fsk ftk mom tune ws 0]
    by (simp add: create_r3d_supported [OF s] relocate_def)
qed

lemma node_name_shift [simp]: "node_name (shift k n) = node_name n"
  by (cases n) simp_all

lemma node_inputs_shift: "node_inputs (shift k n) = map (\<lambda>h. h + k) (node_inputs n)"
  by (cases n) simp_all

lemma names_shift [simp]: "names (map (shift k) g) = names g"
  by (induction g) (simp_all split: option.split)

lemma names_append: "names (g @ h) = names g @ names h"
  by (induction g) (simp_all split: option.split)

lemma residual_blocks_append:
  "residual_blocks (g @ h) = residual_blocks g + residual_blocks h"
  by (simp add: residual_blocks_def)

lemma residual_blocks_stem [simp]: "residual_blocks (stem_nodes nb mom tune ws off) = 0"
  by (simp add: residual_blocks_def stem_nodes_def)

lemma residual_blocks_head [simp]: "residual_blocks (head_nodes nc fsk ftk body off) = 0"
  by (simp add: residual_blocks_def head_nodes_def)

lemma residual_blocks_block [simp]:
  "residual_blocks (block_nodes b data i n ds osd off) = 1"
  by (simp add: residual_blocks_def block_nodes_def main_nodes_def stc_nodes_def)

lemma residual_blocks_plan [simp]:
  "residual_blocks (plan_nodes ps b body off) = length ps"
  by (induction ps b body off rule: plan_nodes.induct) (simp_all add: residual_blocks_append, simp add: residual_blocks_def)

lemma residual_blocks_r3d [simp]:
  "residual_blocks (r3d_nodes nc nb ps fsk ftk mom tune ws off) = length ps"
  by (simp add: r3d_nodes_def residual_blocks_append)

lemma length_stage_plan:
  "length (stage_plan n1 n2 n3 n4) = nat n1 + nat (n2 - 1) + nat (n3 - 1) + nat (n4 - 1) + 3"
  by (simp add: stage_plan_def)

lemma plan_len_stage_plan:
  "plan_len (stage_plan n1 n2 n3 n4) =
     13 * (nat n1 + nat (n2 - 1) + nat (n3 - 1) + nat (n4 - 1)) + 45"
  by (simp add: plan_len_def stage_plan_def block_len_def projects_def sum_list_replicate)

lemma BLOCK_CONFIG_simps:
  "BLOCK_CONFIG 10 = Some (1, 1, 1, 1)"
  "BLOCK_CONFIG 16 = Some (2, 2, 2, 1)"
  "BLOCK_CONFIG 18 = Some (2, 2, 2, 2)"
  "BLOCK_CONFIG 26 = Some (2, 3, 4, 3)"
  "BLOCK_CONFIG 34 = Some (3, 4, 6, 3)"
  by (simp_all add: BLOCK_CONFIG_def)

lemma BLOCK_CONFIG_None:
  "d \<notin> {10, 16, 18, 26, 34} \<Longrightarrow> BLOCK_CONFIG d = None"
  by (simp add: BLOCK_CONFIG_def)

subsection \<open>Names\<close>

lemma names_block_nodes:
  "names (block_nodes b data i n ds osd off) = block_names (comp_count b) (projects i n ds)"
  by (simp add: block_nodes_def main_nodes_def stc_nodes_def block_names_def)

lemma names_plan_nodes:
  "names (plan_nodes ps b body off) = plan_names ps (comp_count b)"
  by (induction ps b body off rule: plan_nodes.induct)
     (simp_all add: names_append names_block_nodes)

lemma names_r3d_nodes:
  "names (r3d_nodes nc nb ps fsk ftk mom tune ws off) = r3d_names ps"
  by (simp add: r3d_nodes_def r3d_names_def names_append names_plan_nodes stem_nodes_def
      head_nodes_def ModelBuilder_init_def)

lemma digit_char_inj:
  assumes "a < 10" and "b < 10" and "digit_char a = digit_char b"
  shows "a = b"
proof -
  have "distinct ''0123456789''" by simp
  moreover have "a < length ''0123456789''" "b < length ''0123456789''"
    using assms by simp_all
  ultimately show ?thesis
    using assms(3) unfolding digit_char_def by (simp only: nth_eq_iff_index_eq)
qed

lemma is_digit_digit_char: "a < 10 \<Longrightarrow> is_digit (digit_char a)"
proof -
  assume "a < 10"
  then have "a < length ''0123456789''" by simp
  then have "''0123456789'' ! a \<in> set ''0123456789''" by (rule nth_mem)
  then show ?thesis by (simp only: is_digit_def digit_char_def)
qed

lemma digits_nonempty: "digits n \<noteq> []"
  by (subst digits.simps) simp

lemma digits_all_digit: "c \<in> set (digits n) \<Longrightarrow> is_digit c"
proof (induction n rule: digits.induct)
  case (1 n)
  show ?case
  proof (cases "n < 10")
    case True
    with "1.prems" show ?thesis
      by (subst (asm) digits.simps) (simp add: is_digit_digit_char)
  next
    case False
    with "1.prems" have "c \<in> set (digits (n div 10)) \<or> c = digit_char (n mod 10)"
      by (subst (asm) digits.simps) auto
    then show ?thesis
      using "1.IH" [OF False] is_digit_digit_char [of "n mod 10"] by auto
  qed
qed

lemma digits_inj: "digits m = digits n \<Longrightarrow> m = n"
proof (induction m arbitrary: n rule: digits.induct)
  case (1 m)
  show ?case
  proof (cases "m < 10")
    case m: True
    show ?thesis
    proof (cases "n < 10")
      case True
      with m "1.prems" show ?thesis
        by (simp add: digits.simps [of m] digits.simps [of n] digit_char_inj)
    next
      case False
      with m "1.prems" show ?thesis
        using digits_nonempty [of "n div 10"]
        by (simp add: digits.simps [of m] digits.simps [of n] Cons_eq_append_conv)
    qed
  next
    case m: False
    show ?thesis
    proof (cases "n < 10")
      case True
      with m "1.prems" show ?thesis
        using digits_nonempty [of "m div 10"]
        by (simp add: digits.simps [of m] digits.simps [of n] append_eq_Cons_conv)
    next
      case False
      with m "1.prems" have eq: "digits (m div 10) = digits (n div 10)"
        and last: "digit_char (m mod 10) = digit_char (n mod 10)"
        by (simp_all add: digits.simps [of m] digits.simps [of n])
      from "1.IH" [OF m eq] have "m div 10 = n div 10" .
      moreover from last have "m mod 10 = n mod 10"
        by (intro digit_char_inj) simp_all
      ultimately show ?thesis
        by (metis div_mult_mod_eq)
    qed
  qed
qed

lemma fmt_d_nonneg: "0 \<le> c \<Longrightarrow> fmt_d c = digits (nat c)"
  by (simp add: fmt_d_def)

lemma fmt_d_inj: "0 \<le> a \<Longrightarrow> 0 \<le> b \<Longrightarrow> fmt_d a = fmt_d b \<Longrightarrow> a = b"
  using digits_inj [of "nat a" "nat b"] by (simp add: fmt_d_nonneg)

lemma takeWhile_digits:
  "\<not> is_digit x \<Longrightarrow> takeWhile is_digit (digits n @ x # rest) = digits n"
  using digits_all_digit by simp

lemma takeWhile_digits_end: "takeWhile is_digit (digits n) = digits n"
  using digits_all_digit by simp

lemma fmt_d_1: "fmt_d 1 = ''1''"
  by (simp add: fmt_d_def digits.simps digit_char_def)

lemma fmt_d_2: "fmt_d 2 = ''2''"
  by (simp add: fmt_d_def digits.simps digit_char_def)

lemma not_digit_underscore: "\<not> is_digit CHR ''_''"
  by (simp add: is_digit_def)

lemma name_block_block_names:
  assumes "0 \<le> c" and "x \<in> set (block_names c p)"
  shows "name_block x = digits (nat c)"
  using assms(2)
  by (auto simp: block_names_def name_block_def fmt_d_nonneg [OF assms(1)] fmt_d_1 fmt_d_2
      takeWhile_digits not_digit_underscore takeWhile_digits_end split: if_splits)

lemma distinct_block_names: "distinct (block_names c p)"
  by (simp add: block_names_def fmt_d_1 fmt_d_2)

lemma block_names_disjoint:
  assumes "0 \<le> c" and "0 \<le> c'" and "c \<noteq> c'"
  shows "set (block_names c p) \<inter> set (block_names c' p') = {}"
proof (rule ccontr)
  assume "set (block_names c p) \<inter> set (block_names c' p') \<noteq> {}"
  then obtain x where "x \<in> set (block_names c p)" and "x \<in> set (block_names c' p')"
    by blast
  then have "digits (nat c) = digits (nat c')"
    using name_block_block_names assms(1,2) by metis
  then have "nat c = nat c'" by (rule digits_inj)
  with assms show False by simp
qed

lemma plan_names_mem:
  "x \<in> set (plan_names ps c) \<Longrightarrow> \<exists>c' p. c \<le> c' \<and> x \<in> set (block_names c' p)"
proof (induction ps c rule: plan_names.induct)
  case (1 c)
  then show ?case by simp
next
  case (2 i n ds ps c)
  from "2.prems" consider "x \<in> set (block_names c (projects i n ds))"
    | "x \<in> set (plan_names ps (c + 1))"
    by auto
  then show ?case
  proof cases
    case 1
    then show ?thesis by (intro exI [of _ c] exI conjI) simp_all
  next
    case 2
    from "2.IH" [OF this] obtain c' p where "c + 1 \<le> c'" "x \<in> set (block_names c' p)"
      by blast
    then show ?thesis by (intro exI [of _ c'] exI [of _ p] conjI) simp_all
  qed
qed

lemma distinct_plan_names: "0 \<le> c \<Longrightarrow> distinct (plan_names ps c)"
proof (induction ps c rule: plan_names.induct)
  case (1 c)
  show ?case by simp
next
  case (2 i n ds ps c)
  have "set (block_names c (projects i n ds)) \<inter> set (plan_names ps (c + 1)) = {}"
  proof (rule ccontr)
    assume "set (block_names c (projects i n ds)) \<inter> set (plan_names ps (c + 1)) \<noteq> {}"
    then obtain x where x: "x \<in> set (block_names c (projects i n ds))"
      and "x \<in> set (plan_names ps (c + 1))"
      by blast
    from plan_names_mem [OF this(2)] obtain c' p
      where c': "c + 1 \<le> c'" and x': "x \<in> set (block_names c' p)"
      by blast
    from c' "2.prems" have "0 \<le> c'" "c \<noteq> c'" by simp_all
    from block_names_disjoint [OF "2.prems" this] x x' show False by blast
  qed
  moreover have "distinct (plan_names ps (c + 1))"
    using "2.prems" by (intro "2.IH") simp
  ultimately show ?case
    by (simp add: distinct_block_names)
qed

lemma fixed_names_not_block:
  assumes "x \<in> set (block_names c p)"
  shows "x \<notin> set [''data'', ''conv1_middle'', ''conv1_middle_spatbn_relu'', ''conv1'',
                  ''conv1_spatbn_relu'', ''final_pool'', ''final_fc'', ''softmax_label'',
                  ''softmax'']"
  using assms by (auto simp: block_names_def split: if_splits)

lemma distinct_r3d_names: "distinct (r3d_names ps)"
proof -
  have "x \<notin> set [''data'', ''conv1_middle'', ''conv1_middle_spatbn_relu'', ''conv1'',
                  ''conv1_spatbn_relu'', ''final_pool'', ''final_fc'', ''softmax_label'',
                  ''softmax'']"
    if "x \<in> set (plan_names ps 0)" for x
    using plan_names_mem [OF that] fixed_names_not_block by blast
  then have "\<forall>x \<in> set (plan_names ps 0). x \<notin> set [''data'', ''conv1_middle'',
      ''conv1_middle_spatbn_relu'', ''conv1'', ''conv1_spatbn_relu'', ''final_pool'',
      ''final_fc'', ''softmax_label'', ''softmax'']"
    by blast
  then show ?thesis
    using distinct_plan_names [of 0 ps]
    by (auto simp: r3d_names_def)
qed

subsection \<open>Blocks, widths and momentum of the assembled graph\<close>

lemma stage_plan_18:
  "stage_plan 2 2 2 2 =
     [(64, 64, False), (64, 64, False), (64, 128, True), (128, 128, False),
      (128, 256, True), (256, 256, False), (256, 512, True), (512, 512, False)]"
  by (simp add: stage_plan_def eval_nat_numeral)

lemma block_widths_18:
  "block_widths (snd (create_r3d nc nb 18 fsk ftk mom tune ws [])) =
     [(Some 64, Some 64), (Some 64, Some 64), (Some 64, Some 128), (Some 128, Some 128),
      (Some 128, Some 256), (Some 256, Some 256), (Some 256, Some 512), (Some 512, Some 512)]"
  by (simp add: create_r3d_supported [OF BLOCK_CONFIG_simps(3)] r3d_nodes_def stage_plan_18
      block_nodes_def main_nodes_def stc_nodes_def stem_nodes_def head_nodes_def block_len_def
      projects_def block_widths_def channels_def lookup_def block_input_def plan_len_def)

lemma length_r3d_nodes [simp]:
  "length (r3d_nodes nc nb ps fsk ftk mom tune ws off) = plan_len ps + 11"
  by (simp add: r3d_nodes_def)

lemma create_r3d_blocks:
  assumes "BLOCK_CONFIG d = Some (n1, n2, n3, n4)"
    and "1 \<le> n1" "1 \<le> n2" "1 \<le> n3" "1 \<le> n4"
  shows "fst (create_r3d nc nb d fsk ftk mom tune ws []) =
           Inr (length (snd (create_r3d nc nb d fsk ftk mom tune ws [])) - 1)"
    and "int (residual_blocks (snd (create_r3d nc nb d fsk ftk mom tune ws []))) =
           n1 + n2 + n3 + n4"
  using assms(2-)
  by (simp_all add: create_r3d_supported [OF assms(1)] length_stage_plan)

lemma create_r3d_blocks_ex:
  assumes "BLOCK_CONFIG d = Some (n1, n2, n3, n4)"
    and "1 \<le> n1" "1 \<le> n2" "1 \<le> n3" "1 \<le> n4"
  shows "\<exists>n1 n2 n3 n4. BLOCK_CONFIG d = Some (n1, n2, n3, n4)
         \<and> fst (create_r3d nc nb d fsk ftk mom tune ws []) =
             Inr (length (snd (create_r3d nc nb d fsk ftk mom tune ws [])) - 1)
         \<and> int (residual_blocks (snd (create_r3d nc nb d fsk ftk mom tune ws []))) =
             n1 + n2 + n3 + n4"
  using create_r3d_blocks [OF assms, of nc nb fsk ftk mom tune ws] assms(1) by simp

lemma supported_Some:
  assumes "d \<in> {10, 16, 18, 26, 34}"
  obtains n1 n2 n3 n4 where "BLOCK_CONFIG d = Some (n1, n2, n3, n4)"
  using assms BLOCK_CONFIG_simps by auto

lemma momentum_ok_stem: "list_all (momentum_ok mom) (stem_nodes nb mom tune ws off)"
  by (simp add: stem_nodes_def momentum_ok_def)

lemma momentum_ok_head: "list_all (momentum_ok mom) (head_nodes nc fsk ftk body off)"
  by (simp add: head_nodes_def momentum_ok_def)

lemma momentum_ok_block:
  "list_all (momentum_ok (bn_mom b)) (block_nodes b data i n ds osd off)"
  by (simp add: block_nodes_def main_nodes_def stc_nodes_def momentum_ok_def)

lemma momentum_ok_plan:
  "list_all (momentum_ok (bn_mom b)) (plan_nodes ps b body off)"
  by (induction ps b body off rule: plan_nodes.induct) (simp_all add: momentum_ok_block)

lemma momentum_ok_r3d:
  "list_all (momentum_ok mom) (r3d_nodes nc nb ps fsk ftk mom tune ws off)"
  using momentum_ok_plan [of "ModelBuilder_init nb mom tune ws" ps]
  by (simp add: r3d_nodes_def momentum_ok_stem momentum_ok_head ModelBuilder_init_def)

lemma shortcut_bn_block:
  "length (filter is_shortcut_bn (block_nodes b data i n ds osd off)) =
     (if projects i n ds then 1 else 0)"
  by (simp add: block_nodes_def main_nodes_def stc_nodes_def)

lemma shortcut_bn_plan:
  "length (filter is_shortcut_bn (plan_nodes ps b body off)) =
     length (filter (\<lambda>(i, n, ds). projects i n ds) ps)"
  by (induction ps b body off rule: plan_nodes.induct) (simp_all add: shortcut_bn_block)

lemma shortcut_bn_r3d:
  "length (filter is_shortcut_bn (r3d_nodes nc nb (stage_plan n1 n2 n3 n4) fsk ftk mom tune ws off))
     = 3"
  by (simp add: r3d_nodes_def shortcut_bn_plan stem_nodes_def head_nodes_def stage_plan_def
      projects_def)

subsection \<open>The engine's names\<close>

lemma node_hint_shift [simp]: "node_hint (shift k n) = node_hint n"
  by (cases n) simp_all

lemma engine_names_shift: "engine_names c (map (shift k) g) = engine_names c g"
  by (induction g arbitrary: c) simp_all

lemma counters_after_append:
  "counters_after c (g @ h) = counters_after (counters_after c g) h"
  by (induction g arbitrary: c) simp_all

lemma engine_names_append:
  "engine_names c (g @ h) = engine_names c g @ engine_names (counters_after c g) h"
  by (induction g arbitrary: c) simp_all

lemma bump_bump: "bump (bump c a p) a' p' = bump c (a + a') (p + p')"
  by (rule ext) (simp add: bump_def)

lemma bump_0: "bump c 0 0 = c"
  by (rule ext) (simp add: bump_def)

lemma counters_after_stem: "counters_after c (stem_nodes nb mom tune ws off) = bump c 2 0"
  by (rule ext) (simp add: stem_nodes_def NameManager_get_def bump_def)

lemma counters_after_head: "counters_after c (head_nodes nc fsk ftk body off) = c"
  by (rule ext) (simp add: head_nodes_def NameManager_get_def)

lemma counters_after_block:
  "counters_after c (block_nodes b data i n ds osd off) = bump c 4 1"
  by (rule ext)
     (simp add: block_nodes_def main_nodes_def stc_nodes_def NameManager_get_def bump_def)

lemma counters_after_plan:
  "counters_after c (plan_nodes ps b body off) = bump c (4 * length ps) (length ps)"
proof (induction ps b body off arbitrary: c rule: plan_nodes.induct)
  case (1 b body off)
  show ?case by (simp add: bump_0)
next
  case (2 i n ds ps b body off)
  show ?case
    using "2.IH" [of "bump c 4 1"]
    by (simp add: counters_after_append counters_after_block bump_bump)
qed

lemma counters_after_r3d:
  "counters_after c (r3d_nodes nc nb ps fsk ftk mom tune ws off) =
     bump c (2 + 4 * length ps) (length ps)"
  by (simp add: r3d_nodes_def counters_after_append counters_after_stem counters_after_plan
      counters_after_head bump_bump)

lemma first_activation_name:
  "engine_names c (snd (create_r3d nc nb d fsk ftk mom tune ws [])) ! 3 =
     ''activation'' @ fmt_d (int (c ''activation''))"
proof (cases "BLOCK_CONFIG d")
  case None
  show ?thesis
    by (simp add: create_r3d_None [OF None] stem_nodes_def NameManager_get_def)
next
  case (Some ns)
  obtain n1 n2 n3 n4 where ns: "ns = (n1, n2, n3, n4)" by (cases ns)
  note s = Some [unfolded ns]
  show ?thesis
    by (simp add: create_r3d_supported [OF s] r3d_nodes_def stem_nodes_def NameManager_get_def)
qed

lemma new_nodes_relocated:
  "drop (length g) (snd (create_r3d nc nb d fsk ftk mom tune ws g)) =
     map (shift (length g)) (snd (create_r3d nc nb d fsk ftk mom tune ws []))"
  by (subst create_r3d_relocate) (simp add: relocate_def split: prod.split)

section \<open>The claims\<close>

text \<open>
  C1, as amended. For a model depth that is not a key of the table, \<open>create_r3d\<close> fails
  with the \<open>KeyError\<close> of the lookup, which carries the depth. The lookup is made
  after the stem: when it fails, the seven stem nodes (the input placeholder, two
  convolutions, two batch normalisations, two activations) have been made, and no node of
  a residual block.
\<close>

theorem unsupported_depth_fails:
  assumes "d \<notin> {10, 16, 18, 26, 34}"
  shows "fst (create_r3d nc nb d fsk ftk mom tune ws g) = Inl (KeyError d)
       \<and> snd (create_r3d nc nb d fsk ftk mom tune ws g) =
           g @ [Var ''data'' ''float32'',
                Convolution (length g) 45 (1, 7, 7) (1, 2, 2) (Some (0, 3, 3)) nb (Some tune)
                  (Some ws) ''conv1_middle'',
                BatchNorm (length g + 1) False eps_lit (Some mom) ''conv1_middle_spatbn_relu'',
                Activation (length g + 2) ''relu'',
                Convolution (length g + 3) 64 (3, 1, 1) (1, 1, 1) (Some (1, 0, 0)) nb
                  (Some tune) (Some ws) ''conv1'',
                BatchNorm (length g + 4) False eps_lit (Some mom) ''conv1_spatbn_relu'',
                Activation (length g + 5) ''relu'']
       \<and> residual_blocks (drop (length g) (snd (create_r3d nc nb d fsk ftk mom tune ws g))) = 0"
  using create_r3d_None [OF BLOCK_CONFIG_None [OF assms], of nc nb fsk ftk mom tune ws g]
  by (simp add: stem_nodes_def residual_blocks_def)

theorem unsupported_depth_fails_witness:
  "(20::int) \<notin> {10, 16, 18, 26, 34}
   \<and> fst (create_r3d 400 0 20 7 1 (9 / 10 :: rat) ''off'' 512 []) = Inl (KeyError 20)
   \<and> length (snd (create_r3d 400 0 20 7 1 (9 / 10 :: rat) ''off'' 512 [])) = 7"
  using unsupported_depth_fails [of 20 400 0 7 1 "9 / 10 :: rat" "''off''" 512 "[]"]
  by simp

text \<open>
  C1 as stated fails: at depth 20 the failure is reported with seven nodes made, not zero.
\<close>

theorem fail_fast_counterexample:
  "fst (create_r3d 400 0 20 7 1 (9 / 10 :: rat) ''off'' 512 []) = Inl (KeyError 20)
   \<and> length (snd (create_r3d 400 0 20 7 1 (9 / 10 :: rat) ''off'' 512 [])) = 7
   \<and> length (snd (create_r3d 400 0 20 7 1 (9 / 10 :: rat) ''off'' 512 [])) \<noteq> 0"
  by (simp add: create_r3d_None [OF BLOCK_CONFIG_None])

text \<open>
  C2, as amended. For positive channel counts with \<open>3 * in * out * 9 < 2^53\<close> the
  middle width is the floor of the exact ratio
  \<open>3 * in * out * 9 / (in * 9 + 3 * out)\<close>, that is the integer quotient: the double
  that the division returns has the integer part of the exact quotient, and \<open>int\<close>
  truncates it once. It is the filter count of the first (1x3x3) convolution that
  \<open>add_spatial_temporal_conv\<close> makes; for 64 and 64 it is 144.
\<close>

theorem middle_filters_formula:
  assumes "0 < in_filters" and "0 < out_filters"
    and "3 * in_filters * out_filters * 9 < 2 ^ 53"
  shows "middle_filters in_filters out_filters =
           Inr \<lfloor>rat_of_int (3 * in_filters * out_filters * 9)
                 / rat_of_int (in_filters * 9 + 3 * out_filters)\<rfloor>
       \<and> middle_filters in_filters out_filters =
           Inr ((3 * in_filters * out_filters * 9) div (in_filters * 9 + 3 * out_filters))
       \<and> conv_num_filter
           (snd (snd (add_spatial_temporal_conv self body in_filters out_filters stride g))
              ! length g) =
           Some ((3 * in_filters * out_filters * 9) div (in_filters * 9 + 3 * out_filters))
       \<and> middle_filters 64 64 = Inr 144"
proof -
  note mf = middle_filters_small [OF assms]
  have fl: "\<lfloor>rat_of_int (3 * in_filters * out_filters * 9)
                 / rat_of_int (in_filters * 9 + 3 * out_filters)\<rfloor>
            = (3 * in_filters * out_filters * 9) div (in_filters * 9 + 3 * out_filters)"
    by (rule floor_divide_of_int_eq)
  have nd: "conv_num_filter
           (snd (snd (add_spatial_temporal_conv self body in_filters out_filters stride g))
              ! length g) =
           Some ((3 * in_filters * out_filters * 9) div (in_filters * 9 + 3 * out_filters))"
    by (simp add: add_spatial_temporal_conv_Inr [OF mf] stc_nodes_def)
  have ex: "middle_filters 64 64 = Inr 144"
    by (simp add: middle_filters_small)
  show ?thesis
    unfolding fl using mf nd ex by (intro conjI)
qed

theorem middle_filters_formula_witness:
  "(0::int) < 64 \<and> (0::int) < 128 \<and> (3 * 64 * 128 * 9 :: int) < 2 ^ 53
     \<and> middle_filters 64 128 = Inr 230
     \<and> conv_num_filter
          (snd (snd (add_spatial_temporal_conv
             (ModelBuilder_init 0 (0::nat) ''off'' 512) 0 64 128 (2, 2, 2)
             [Var ''data'' ''float32''])) ! 1) = Some 230"
  using middle_filters_formula [of 64 128 "ModelBuilder_init 0 (0::nat) ''off'' 512" 0
      "(2, 2, 2)" "[Var ''data'' ''float32'']", THEN conjunct2]
  by simp

text \<open>
  C2 as stated fails for large counts: for 301534782 input and 987082965 output channels
  the exact ratio has floor 1416068397, but the double nearest to it is 1416068398.0, and
  that is the middle width the code computes.
\<close>

theorem middle_filters_counterexample:
  "(0::int) < 301534782 \<and> (0::int) < 987082965
   \<and> \<lfloor>rat_of_int (3 * 301534782 * 987082965 * 9)
        / rat_of_int (301534782 * 9 + 3 * 987082965)\<rfloor> = 1416068397
   \<and> middle_filters 301534782 987082965 = Inr 1416068398"
proof -
  have "\<lfloor>rat_of_int (3 * 301534782 * 987082965 * 9)
        / rat_of_int (301534782 * 9 + 3 * 987082965)\<rfloor> = 1416068397"
    unfolding floor_divide_of_int_eq by simp
  then show ?thesis
    using middle_filters_cx by simp
qed

text \<open>
  C3. For every depth of the table \<open>create_r3d\<close> succeeds, returning the last node it
  made, and the graph has \<open>n1 + n2 + n3 + n4\<close> residual blocks for the table entry
  \<open>(n1, n2, n3, n4)\<close>. At depth 18 there are 8 blocks, whose input and output widths
  are, in order, 64 to 64 twice, 64 to 128, 128 to 128, 128 to 256, 256 to 256, 256 to 512
  and 512 to 512.
\<close>

theorem residual_block_count:
  "(d \<in> {10, 16, 18, 26, 34} \<longrightarrow>
      (\<exists>n1 n2 n3 n4. BLOCK_CONFIG d = Some (n1, n2, n3, n4)
         \<and> fst (create_r3d nc nb d fsk ftk mom tune ws []) =
             Inr (length (snd (create_r3d nc nb d fsk ftk mom tune ws [])) - 1)
         \<and> int (residual_blocks (snd (create_r3d nc nb d fsk ftk mom tune ws []))) =
             n1 + n2 + n3 + n4))
   \<and> residual_blocks (snd (create_r3d nc nb 18 fsk ftk mom tune ws [])) = 8
   \<and> block_widths (snd (create_r3d nc nb 18 fsk ftk mom tune ws [])) =
       [(Some 64, Some 64), (Some 64, Some 64), (Some 64, Some 128), (Some 128, Some 128),
        (Some 128, Some 256), (Some 256, Some 256), (Some 256, Some 512), (Some 512, Some 512)]"
proof -
  have a: "\<exists>n1 n2 n3 n4. BLOCK_CONFIG d = Some (n1, n2, n3, n4)
         \<and> fst (create_r3d nc nb d fsk ftk mom tune ws []) =
             Inr (length (snd (create_r3d nc nb d fsk ftk mom tune ws [])) - 1)
         \<and> int (residual_blocks (snd (create_r3d nc nb d fsk ftk mom tune ws []))) =
             n1 + n2 + n3 + n4"
    if "d \<in> {10, 16, 18, 26, 34}"
  proof -
    from that consider "d = 10" | "d = 16" | "d = 18" | "d = 26" | "d = 34" by auto
    then show ?thesis
    proof cases
      case 1
      show ?thesis
        unfolding 1 by (rule create_r3d_blocks_ex [OF BLOCK_CONFIG_simps(1)]) simp_all
    next
      case 2
      show ?thesis
        unfolding 2 by (rule create_r3d_blocks_ex [OF BLOCK_CONFIG_simps(2)]) simp_all
    next
      case 3
      show ?thesis
        unfolding 3 by (rule create_r3d_blocks_ex [OF BLOCK_CONFIG_simps(3)]) simp_all
    next
      case 4
      show ?thesis
        unfolding 4 by (rule create_r3d_blocks_ex [OF BLOCK_CONFIG_simps(4)]) simp_all
    next
      case 5
      show ?thesis
        unfolding 5 by (rule create_r3d_blocks_ex [OF BLOCK_CONFIG_simps(5)]) simp_all
    qed
  qed
  have b: "residual_blocks (snd (create_r3d nc nb 18 fsk ftk mom tune ws [])) = 8"
    by (simp add: create_r3d_supported [OF BLOCK_CONFIG_simps(3)] length_stage_plan)
  show ?thesis
    using a b block_widths_18 [of nc nb fsk ftk mom tune ws] by (intro conjI impI)
qed

theorem residual_block_count_witness:
  "(34::int) \<in> {10, 16, 18, 26, 34}
   \<and> BLOCK_CONFIG 34 = Some (3, 4, 6, 3)
   \<and> fst (create_r3d 400 0 34 7 1 (9 / 10 :: rat) ''off'' 512 []) = Inr 224
   \<and> residual_blocks (snd (create_r3d 400 0 34 7 1 (9 / 10 :: rat) ''off'' 512 [])) = 16"
proof -
  have l: "length (snd (create_r3d 400 0 34 7 1 (9 / 10 :: rat) ''off'' 512 [])) = 225"
    by (simp add: create_r3d_supported [OF BLOCK_CONFIG_simps(5)] plan_len_stage_plan)
  from residual_block_count [of 34 400 0 7 1 "9 / 10 :: rat" "''off''" 512]
  obtain n1 n2 n3 n4 where "BLOCK_CONFIG 34 = Some (n1, n2, n3, n4)"
    and "fst (create_r3d 400 0 34 7 1 (9 / 10 :: rat) ''off'' 512 []) =
          Inr (length (snd (create_r3d 400 0 34 7 1 (9 / 10 :: rat) ''off'' 512 [])) - 1)"
    and "int (residual_blocks (snd (create_r3d 400 0 34 7 1 (9 / 10 :: rat) ''off'' 512 []))) =
          n1 + n2 + n3 + n4"
    by auto
  then show ?thesis
    using l by (simp add: BLOCK_CONFIG_simps)
qed

text \<open>
  C4, as amended. A block that returns has a shortcut projection exactly when the output
  width differs from the input width or down-sampling is requested. The projection is a
  1x1x1 convolution of the block's input with the block's stride and with the builder's
  \<open>no_bias\<close> flag, followed by a batch normalisation, and the residual addition takes
  that batch normalisation; without projection the addition takes the block's input
  itself. The nodes that existed before the call are unchanged.
\<close>

theorem shortcut_projection_iff:
  assumes "add_r3d_block self data i n ds sbn osd g = (Inr out, self', g')"
  shows "(n \<noteq> i \<or> ds \<longrightarrow>
            drop (length g + 11) g' =
              [Convolution data n (1, 1, 1) (use_striding ds osd) None (no_bias self) None None
                 (''shortcut_projection_'' @ fmt_d (comp_count self)),
               BatchNorm (length g + 11) False eps_lit None
                 (''shortcut_projection_'' @ fmt_d (comp_count self) @ ''_spatbn''),
               ElemwiseAdd (length g + 12) (length g + 10),
               Activation (length g + 13) ''relu''])
       \<and> (\<not> (n \<noteq> i \<or> ds) \<longrightarrow>
            drop (length g + 11) g' =
              [ElemwiseAdd data (length g + 10), Activation (length g + 11) ''relu''])
       \<and> ((\<exists>x \<in> set (drop (length g) g'). is_projection x) \<longleftrightarrow> (n \<noteq> i \<or> ds))
       \<and> take (length g) g' = g"
  using add_r3d_block_Inr_cases [OF assms]
  by (simp add: block_nodes_def main_nodes_def stc_nodes_def projects_def)

theorem shortcut_projection_iff_witness:
  "fst (add_r3d_block (ModelBuilder_init 1 (9 / 10 :: rat) ''off'' 512) 0 64 128 True True False
       [Var ''data'' ''float32'']) = Inr 15
   \<and> drop 12 (snd (snd (add_r3d_block (ModelBuilder_init 1 (9 / 10 :: rat) ''off'' 512) 0 64
          128 True True False [Var ''data'' ''float32'']))) =
       [Convolution 0 128 (1, 1, 1) (2, 2, 2) None 1 None None ''shortcut_projection_0'',
        BatchNorm 12 False eps_lit None ''shortcut_projection_0_spatbn'',
        ElemwiseAdd 13 11, Activation 14 ''relu'']
   \<and> fst (add_r3d_block (ModelBuilder_init 1 (9 / 10 :: rat) ''off'' 512) 0 64 64 False True
       False [Var ''data'' ''float32'']) = Inr 13
   \<and> drop 12 (snd (snd (add_r3d_block (ModelBuilder_init 1 (9 / 10 :: rat) ''off'' 512) 0 64
          64 False True False [Var ''data'' ''float32'']))) =
       [ElemwiseAdd 0 11, Activation 12 ''relu'']"
proof -
  have m: "middle_filters 64 128 = Inr 230" "middle_filters 128 128 = Inr 288"
    "middle_filters 64 64 = Inr 144"
    by (simp_all add: middle_filters_small)
  obtain self1 g1 where
    r1: "add_r3d_block (ModelBuilder_init 1 (9 / 10 :: rat) ''off'' 512) 0 64 128 True True
           False [Var ''data'' ''float32''] = (Inr 15, self1, g1)"
    by (simp add: add_r3d_block_Inr [OF m(1,2)] block_len_def projects_def)
  obtain self2 g2 where
    r2: "add_r3d_block (ModelBuilder_init 1 (9 / 10 :: rat) ''off'' 512) 0 64 64 False True
           False [Var ''data'' ''float32''] = (Inr 13, self2, g2)"
    by (simp add: add_r3d_block_Inr [OF m(3,3)] block_len_def projects_def)
  show ?thesis
    using shortcut_projection_iff [OF r1] shortcut_projection_iff [OF r2] r1 r2
    by (simp add: use_striding_def ModelBuilder_init_def fmt_d_def digits.simps digit_char_def)
qed

text \<open>
  C4 as stated fails on "no bias": with the bias flag off (the default of
  \<open>create_r3d\<close>), the projection of a 64 to 128 block is made with \<open>no_bias = 0\<close>,
  that is with a bias.
\<close>

theorem shortcut_bias_counterexample:
  "conv_no_bias (snd (snd (add_r3d_block (ModelBuilder_init 0 (9 / 10 :: rat) ''off'' 512) 0 64
       128 True True False [Var ''data'' ''float32''])) ! 12) = Some 0
   \<and> is_projection (snd (snd (add_r3d_block (ModelBuilder_init 0 (9 / 10 :: rat) ''off'' 512)
       0 64 128 True True False [Var ''data'' ''float32''])) ! 12)"
proof -
  have m: "middle_filters 64 128 = Inr 230" "middle_filters 128 128 = Inr 288"
    by (simp_all add: middle_filters_small)
  show ?thesis
    by (simp add: add_r3d_block_Inr [OF m] block_nodes_def main_nodes_def stc_nodes_def
        projects_def ModelBuilder_init_def)
qed

text \<open>
  C5. The stride of a block is (1,1,1) without down-sampling, (1,2,2) with spatial-only
  down-sampling and (2,2,2) otherwise. \<open>add_spatial_temporal_conv\<close> gives its 1x3x3
  convolution the stride (1, h, w) and its 3x1x1 convolution the stride (t, 1, 1); in a
  block the first pair of convolutions takes the block's stride and the second pair
  (1,1,1).
\<close>

theorem stride_selection:
  "use_striding False osd = (1, 1, 1)
   \<and> use_striding True True = (1, 2, 2)
   \<and> use_striding True False = (2, 2, 2)
   \<and> (middle_filters i n = Inr m \<longrightarrow>
        map conv_kernel_stride
          (drop (length g) (snd (snd (add_spatial_temporal_conv self body i n (t, h, w) g)))) =
        [Some ((1, 3, 3), (1, h, w)), None, None, Some ((3, 1, 1), (t, 1, 1))])
   \<and> (add_r3d_block self data i n ds sbn osd g = (Inr out, self', g') \<longrightarrow>
        take 11 (map conv_kernel_stride (drop (length g) g')) =
        [Some ((1, 3, 3), (1, fst (snd (use_striding ds osd)), snd (snd (use_striding ds osd)))),
         None, None,
         Some ((3, 1, 1), (fst (use_striding ds osd), 1, 1)),
         None, None,
         Some ((1, 3, 3), (1, 1, 1)), None, None, Some ((3, 1, 1), (1, 1, 1)), None])"
proof -
  have a: "middle_filters i n = Inr m \<Longrightarrow>
        map conv_kernel_stride
          (drop (length g) (snd (snd (add_spatial_temporal_conv self body i n (t, h, w) g)))) =
        [Some ((1, 3, 3), (1, h, w)), None, None, Some ((3, 1, 1), (t, 1, 1))]"
    by (simp add: add_spatial_temporal_conv_Inr stc_nodes_def)
  have b: "take 11 (map conv_kernel_stride (drop (length g) g')) =
        [Some ((1, 3, 3), (1, fst (snd (use_striding ds osd)), snd (snd (use_striding ds osd)))),
         None, None,
         Some ((3, 1, 1), (fst (use_striding ds osd), 1, 1)),
         None, None,
         Some ((1, 3, 3), (1, 1, 1)), None, None, Some ((3, 1, 1), (1, 1, 1)), None]"
    if "add_r3d_block self data i n ds sbn osd g = (Inr out, self', g')"
    using add_r3d_block_Inr_cases [OF that]
    by (simp add: block_nodes_def main_nodes_def stc_nodes_def)
  show ?thesis using a b by (simp add: use_striding_def)
qed

theorem stride_selection_witness:
  "middle_filters 64 128 = Inr 230
   \<and> map conv_kernel_stride
        (drop 1 (snd (snd (add_spatial_temporal_conv
           (ModelBuilder_init 0 (0::nat) ''off'' 512) 0 64 128 (2, 2, 2)
           [Var ''data'' ''float32''])))) =
      [Some ((1, 3, 3), (1, 2, 2)), None, None, Some ((3, 1, 1), (2, 1, 1))]
   \<and> fst (add_r3d_block (ModelBuilder_init 0 (0::nat) ''off'' 512) 0 64 128 True True True
           [Var ''data'' ''float32'']) = Inr 15
   \<and> take 11 (map conv_kernel_stride
        (drop 1 (snd (snd (add_r3d_block (ModelBuilder_init 0 (0::nat) ''off'' 512) 0 64 128
           True True True [Var ''data'' ''float32''])))))
      = [Some ((1, 3, 3), (1, 2, 2)), None, None, Some ((3, 1, 1), (1, 1, 1)), None, None,
         Some ((1, 3, 3), (1, 1, 1)), None, None, Some ((3, 1, 1), (1, 1, 1)), None]"
proof -
  have m: "middle_filters 64 128 = Inr 230" "middle_filters 128 128 = Inr 288"
    by (simp_all add: middle_filters_small)
  obtain self' g' where
    r: "add_r3d_block (ModelBuilder_init 0 (0::nat) ''off'' 512) 0 64 128 True True True
           [Var ''data'' ''float32''] = (Inr 15, self', g')"
    by (simp add: add_r3d_block_Inr [OF m] block_len_def projects_def)
  show ?thesis
    using stride_selection [where osd = True and i = 64 and n = 128 and m = 230
        and g = "[Var ''data'' ''float32'']" and body = 0 and data = 0
        and self = "ModelBuilder_init 0 (0::nat) ''off'' 512" and t = 2 and h = 2 and w = 2
        and ds = True and sbn = True and out = 15 and self' = self' and g' = g'] m r
    by (simp add: use_striding_def)
qed

text \<open>
  C6. For every depth of the table, the names that \<open>create_r3d\<close> gives to the nodes
  of one graph are pairwise distinct, whatever the other arguments and whatever existed
  before the call. (Activations and residual additions are made without a name.)
\<close>

theorem node_names_distinct:
  assumes "d \<in> {10, 16, 18, 26, 34}"
  shows "distinct (names (snd (create_r3d nc nb d fsk ftk mom tune ws [])))
       \<and> distinct (names (drop (length g) (snd (create_r3d nc nb d fsk ftk mom tune ws g))))"
proof -
  from assms obtain n1 n2 n3 n4 where c: "BLOCK_CONFIG d = Some (n1, n2, n3, n4)"
    by (rule supported_Some)
  show ?thesis
    by (simp add: create_r3d_supported [OF c] names_r3d_nodes distinct_r3d_names)
qed

theorem node_names_distinct_witness:
  "(10::int) \<in> {10, 16, 18, 26, 34}
   \<and> distinct (names (snd (create_r3d 400 0 10 7 1 (9 / 10 :: rat) ''off'' 512 [])))
   \<and> names (snd (create_r3d 400 0 10 7 1 (9 / 10 :: rat) ''off'' 512 [])) =
       [''data'', ''conv1_middle'', ''conv1_middle_spatbn_relu'', ''conv1'',
        ''conv1_spatbn_relu'',
        ''comp_0_conv_1_middle'', ''comp_0_spatbn_1_middle'', ''comp_0_conv_1'',
        ''comp_0_spatbn_1'', ''comp_0_conv_2_middle'', ''comp_0_spatbn_2_middle'',
        ''comp_0_conv_2'', ''comp_0_spatbn_2'',
        ''comp_1_conv_1_middle'', ''comp_1_spatbn_1_middle'', ''comp_1_conv_1'',
        ''comp_1_spatbn_1'', ''comp_1_conv_2_middle'', ''comp_1_spatbn_2_middle'',
        ''comp_1_conv_2'', ''comp_1_spatbn_2'', ''shortcut_projection_1'',
        ''shortcut_projection_1_spatbn'',
        ''comp_2_conv_1_middle'', ''comp_2_spatbn_1_middle'', ''comp_2_conv_1'',
        ''comp_2_spatbn_1'', ''comp_2_conv_2_middle'', ''comp_2_spatbn_2_middle'',
        ''comp_2_conv_2'', ''comp_2_spatbn_2'', ''shortcut_projection_2'',
        ''shortcut_projection_2_spatbn'',
        ''comp_3_conv_1_middle'', ''comp_3_spatbn_1_middle'', ''comp_3_conv_1'',
        ''comp_3_spatbn_1'', ''comp_3_conv_2_middle'', ''comp_3_spatbn_2_middle'',
        ''comp_3_conv_2'', ''comp_3_spatbn_2'', ''shortcut_projection_3'',
        ''shortcut_projection_3_spatbn'',
        ''final_pool'', ''final_fc'', ''softmax_label'', ''softmax'']"
proof -
  have "names (snd (create_r3d 400 0 10 7 1 (9 / 10 :: rat) ''off'' 512 [])) =
       [''data'', ''conv1_middle'', ''conv1_middle_spatbn_relu'', ''conv1'',
        ''conv1_spatbn_relu'',
        ''comp_0_conv_1_middle'', ''comp_0_spatbn_1_middle'', ''comp_0_conv_1'',
        ''comp_0_spatbn_1'', ''comp_0_conv_2_middle'', ''comp_0_spatbn_2_middle'',
        ''comp_0_conv_2'', ''comp_0_spatbn_2'',
        ''comp_1_conv_1_middle'', ''comp_1_spatbn_1_middle'', ''comp_1_conv_1'',
        ''comp_1_spatbn_1'', ''comp_1_conv_2_middle'', ''comp_1_spatbn_2_middle'',
        ''comp_1_conv_2'', ''comp_1_spatbn_2'', ''shortcut_projection_1'',
        ''shortcut_projection_1_spatbn'',
        ''comp_2_conv_1_middle'', ''comp_2_spatbn_1_middle'', ''comp_2_conv_1'',
        ''comp_2_spatbn_1'', ''comp_2_conv_2_middle'', ''comp_2_spatbn_2_middle'',
        ''comp_2_conv_2'', ''comp_2_spatbn_2'', ''shortcut_projection_2'',
        ''shortcut_projection_2_spatbn'',
        ''comp_3_conv_1_middle'', ''comp_3_spatbn_1_middle'', ''comp_3_conv_1'',
        ''comp_3_spatbn_1'', ''comp_3_conv_2_middle'', ''comp_3_spatbn_2_middle'',
        ''comp_3_conv_2'', ''comp_3_spatbn_2'', ''shortcut_projection_3'',
        ''shortcut_projection_3_spatbn'',
        ''final_pool'', ''final_fc'', ''softmax_label'', ''softmax'']"
    by (simp add: create_r3d_supported [OF BLOCK_CONFIG_simps(1)] names_r3d_nodes r3d_names_def
        stage_plan_def block_names_def projects_def fmt_d_def digits.simps digit_char_def)
  then show ?thesis
    using node_names_distinct [of 10 400 0 7 1 "9 / 10 :: rat" "''off''" 512 "[]"]
    by simp
qed

text \<open>
  C7, as amended. Two invocations of \<open>create_r3d\<close> with the same arguments build the
  same graph whatever was built before: the same nodes in the same order with the same
  attributes, the same edges (the handles moved by the number of nodes that existed), and
  the same name for every node the program names. The activations and additions, which
  the program leaves unnamed, get the engine's numbered names: all names are identical
  when both invocations start from the same name counters, and they differ as soon as the
  counters for \<open>activation\<close> differ.
\<close>

theorem create_r3d_deterministic:
  "create_r3d nc nb d fsk ftk mom tune ws g =
     relocate g (create_r3d nc nb d fsk ftk mom tune ws [])
   \<and> names (drop (length g) (snd (create_r3d nc nb d fsk ftk mom tune ws g))) =
       names (snd (create_r3d nc nb d fsk ftk mom tune ws []))
   \<and> map node_inputs (drop (length g) (snd (create_r3d nc nb d fsk ftk mom tune ws g))) =
       map (map (\<lambda>h. h + length g))
         (map node_inputs (snd (create_r3d nc nb d fsk ftk mom tune ws [])))
   \<and> engine_names c (drop (length g) (snd (create_r3d nc nb d fsk ftk mom tune ws g))) =
       engine_names c (snd (create_r3d nc nb d fsk ftk mom tune ws []))
   \<and> (c ''activation'' \<noteq> c' ''activation'' \<longrightarrow>
        engine_names c (drop (length g) (snd (create_r3d nc nb d fsk ftk mom tune ws g))) \<noteq>
        engine_names c' (drop (length g') (snd (create_r3d nc nb d fsk ftk mom tune ws g'))))"
proof -
  let ?G = "snd (create_r3d nc nb d fsk ftk mom tune ws [])"
  have r: "create_r3d nc nb d fsk ftk mom tune ws g =
     relocate g (create_r3d nc nb d fsk ftk mom tune ws [])"
    by (rule create_r3d_relocate)
  have n: "drop (length g) (snd (create_r3d nc nb d fsk ftk mom tune ws g)) =
     map (shift (length g)) ?G" for g
    by (rule new_nodes_relocated)
  have e: "engine_names c (drop (length g) (snd (create_r3d nc nb d fsk ftk mom tune ws g))) =
     engine_names c ?G" for c g
    unfolding n by (rule engine_names_shift)
  have diff: "engine_names c ?G \<noteq> engine_names c' ?G" if "c ''activation'' \<noteq> c' ''activation''"
  proof
    assume "engine_names c ?G = engine_names c' ?G"
    then have "engine_names c ?G ! 3 = engine_names c' ?G ! 3" by simp
    then have "fmt_d (int (c ''activation'')) = fmt_d (int (c' ''activation''))"
      unfolding first_activation_name by simp
    then have "int (c ''activation'') = int (c' ''activation'')"
      by (intro fmt_d_inj) simp_all
    with that show False by simp
  qed
  show ?thesis
    unfolding e using r n [of g] diff by (simp add: node_inputs_shift comp_def)
qed

theorem create_r3d_deterministic_witness:
  "fresh_counters ''activation'' \<noteq>
     counters_after fresh_counters
       (snd (create_r3d 400 0 10 7 1 (9 / 10 :: rat) ''off'' 512 [])) ''activation''
   \<and> create_r3d 400 0 10 7 1 (9 / 10 :: rat) ''off'' 512 [Var ''other'' ''float32''] =
       relocate [Var ''other'' ''float32'']
         (create_r3d 400 0 10 7 1 (9 / 10 :: rat) ''off'' 512 [])
   \<and> fst (create_r3d 400 0 10 7 1 (9 / 10 :: rat) ''off'' 512 [Var ''other'' ''float32''])
       = Inr 69
   \<and> engine_names fresh_counters
        (drop (length [Var ''other'' ''float32'' :: rat node])
           (snd (create_r3d 400 0 10 7 1 (9 / 10 :: rat) ''off'' 512
              [Var ''other'' ''float32''])))
       \<noteq> engine_names
           (counters_after fresh_counters
              (snd (create_r3d 400 0 10 7 1 (9 / 10 :: rat) ''off'' 512 [])))
           (drop (length ([] :: rat node list))
              (snd (create_r3d 400 0 10 7 1 (9 / 10 :: rat) ''off'' 512 [])))"
proof -
  let ?G = "snd (create_r3d 400 0 10 7 1 (9 / 10 :: rat) ''off'' 512 [])"
  have c1: "counters_after fresh_counters ?G ''activation'' = 18"
    by (simp add: create_r3d_supported [OF BLOCK_CONFIG_simps(1)] counters_after_r3d
        length_stage_plan bump_def fresh_counters_def)
  have c0: "fresh_counters ''activation'' = 0" by (simp add: fresh_counters_def)
  have ne: "fresh_counters ''activation'' \<noteq> counters_after fresh_counters ?G ''activation''"
    unfolding c0 c1 by simp
  have out: "fst (create_r3d 400 0 10 7 1 (9 / 10 :: rat) ''off'' 512 [Var ''other'' ''float32''])
       = Inr 69"
    by (simp add: create_r3d_supported [OF BLOCK_CONFIG_simps(1)] plan_len_stage_plan)
  show ?thesis
    using create_r3d_deterministic [where nc = 400 and nb = 0 and d = 10 and fsk = 7
        and ftk = 1 and mom = "9 / 10 :: rat" and tune = "''off''" and ws = 512
        and g = "[Var ''other'' ''float32'']" and g' = "[]"
        and c = fresh_counters and c' = "counters_after fresh_counters ?G"] ne out
    by blast
qed

text \<open>
  C7 as stated fails: in a fresh session the first invocation (depth 10) names its first
  activation \<open>activation0\<close>; it leaves the counter at 18, so the second invocation with
  the same arguments names the same node \<open>activation18\<close>.
\<close>

theorem auto_names_counterexample:
  "engine_names fresh_counters
      (snd (create_r3d 400 0 10 7 1 (9 / 10 :: rat) ''off'' 512 [])) ! 3 = ''activation0''
   \<and> engine_names
        (counters_after fresh_counters
           (snd (create_r3d 400 0 10 7 1 (9 / 10 :: rat) ''off'' 512 [])))
        (drop (length (snd (create_r3d 400 0 10 7 1 (9 / 10 :: rat) ''off'' 512 [])))
           (snd (create_r3d 400 0 10 7 1 (9 / 10 :: rat) ''off'' 512
              (snd (create_r3d 400 0 10 7 1 (9 / 10 :: rat) ''off'' 512 []))))) ! 3
       = ''activation18''"
proof -
  let ?G = "snd (create_r3d 400 0 10 7 1 (9 / 10 :: rat) ''off'' 512 [])"
  have c1: "counters_after fresh_counters ?G ''activation'' = 18"
    by (simp add: create_r3d_supported [OF BLOCK_CONFIG_simps(1)] counters_after_r3d
        length_stage_plan bump_def fresh_counters_def)
  have "engine_names (counters_after fresh_counters ?G)
          (drop (length ?G) (snd (create_r3d 400 0 10 7 1 (9 / 10 :: rat) ''off'' 512 ?G))) ! 3
        = engine_names (counters_after fresh_counters ?G) ?G ! 3"
    unfolding new_nodes_relocated engine_names_shift ..
  also have "\<dots> = ''activation18''"
    unfolding first_activation_name c1
    by (simp add: fmt_d_def digits.simps digit_char_def)
  finally have second: "engine_names (counters_after fresh_counters ?G)
          (drop (length ?G) (snd (create_r3d 400 0 10 7 1 (9 / 10 :: rat) ''off'' 512 ?G))) ! 3
        = ''activation18''" .
  have first: "engine_names fresh_counters ?G ! 3 = ''activation0''"
    unfolding first_activation_name
    by (simp add: fresh_counters_def fmt_d_def digits.simps digit_char_def)
  show ?thesis using first second by (rule conjI)
qed

text \<open>
  C8. \<open>add_r3d_block\<close> returns the same result, builder and graph for every value of
  \<open>spatial_batch_norm\<close>.
\<close>

theorem spatial_batch_norm_unused:
  "add_r3d_block self data i n ds sbn osd g = add_r3d_block self data i n ds sbn' osd g"
  by (simp add: add_r3d_block_def)

theorem spatial_batch_norm_unused_witness:
  "add_r3d_block (ModelBuilder_init 0 (9 / 10 :: rat) ''off'' 512) 0 64 128 True True False
       [Var ''data'' ''float32'']
     = add_r3d_block (ModelBuilder_init 0 (9 / 10 :: rat) ''off'' 512) 0 64 128 True False False
         [Var ''data'' ''float32'']
   \<and> fst (add_r3d_block (ModelBuilder_init 0 (9 / 10 :: rat) ''off'' 512) 0 64 128 True False
         False [Var ''data'' ''float32'']) = Inr 15"
proof -
  have m: "middle_filters 64 128 = Inr 230" "middle_filters 128 128 = Inr 288"
    by (simp_all add: middle_filters_small)
  show ?thesis
    using spatial_batch_norm_unused [of "ModelBuilder_init 0 (9 / 10 :: rat) ''off'' 512"
        0 64 128 True True False "[Var ''data'' ''float32'']" False]
    by (simp add: add_r3d_block_Inr [OF m] block_len_def projects_def)
qed

text \<open>
  C9. A block passes the builder's momentum to its four main-path batch normalisations
  and no momentum to the batch normalisation of the shortcut projection. In the graph of
  every depth of the table, the batch normalisations made without momentum are exactly
  the three shortcut ones; every other batch normalisation, the two of the stem included,
  has the momentum \<open>bn_mom\<close> of the call.
\<close>

theorem shortcut_bn_momentum:
  "(add_r3d_block self data i n ds sbn osd g = (Inr out, self', g') \<longrightarrow>
      map bn_momentum (drop (length g) g') =
        [None, Some (Some (bn_mom self)), None, None, Some (Some (bn_mom self)), None,
         None, Some (Some (bn_mom self)), None, None, Some (Some (bn_mom self))]
        @ (if n \<noteq> i \<or> ds then [None, Some None, None, None] else [None, None]))
   \<and> (d \<in> {10, 16, 18, 26, 34} \<longrightarrow>
        (\<forall>x \<in> set (snd (create_r3d nc nb d fsk ftk mom tune ws [])).
           (is_shortcut_bn x \<longrightarrow> bn_momentum x = Some None)
           \<and> (\<not> is_shortcut_bn x \<longrightarrow>
                bn_momentum x = None \<or> bn_momentum x = Some (Some mom)))
        \<and> length (filter is_shortcut_bn (snd (create_r3d nc nb d fsk ftk mom tune ws []))) = 3)"
proof -
  have a: "map bn_momentum (drop (length g) g') =
        [None, Some (Some (bn_mom self)), None, None, Some (Some (bn_mom self)), None,
         None, Some (Some (bn_mom self)), None, None, Some (Some (bn_mom self))]
        @ (if n \<noteq> i \<or> ds then [None, Some None, None, None] else [None, None])"
    if "add_r3d_block self data i n ds sbn osd g = (Inr out, self', g')"
    using add_r3d_block_Inr_cases [OF that]
    by (simp add: block_nodes_def main_nodes_def stc_nodes_def projects_def)
  have b: "(\<forall>x \<in> set (snd (create_r3d nc nb d fsk ftk mom tune ws [])).
           (is_shortcut_bn x \<longrightarrow> bn_momentum x = Some None)
           \<and> (\<not> is_shortcut_bn x \<longrightarrow>
                bn_momentum x = None \<or> bn_momentum x = Some (Some mom)))
        \<and> length (filter is_shortcut_bn (snd (create_r3d nc nb d fsk ftk mom tune ws []))) = 3"
    if "d \<in> {10, 16, 18, 26, 34}"
  proof -
    from that obtain n1 n2 n3 n4 where c: "BLOCK_CONFIG d = Some (n1, n2, n3, n4)"
      by (rule supported_Some)
    show ?thesis
      using momentum_ok_r3d [of mom nc nb "stage_plan n1 n2 n3 n4" fsk ftk tune ws 0]
      by (simp add: create_r3d_supported [OF c] shortcut_bn_r3d list_all_iff momentum_ok_def)
  qed
  show ?thesis using a b by blast
qed

theorem shortcut_bn_momentum_witness:
  "(10::int) \<in> {10, 16, 18, 26, 34}
   \<and> BatchNorm 31 False eps_lit None ''shortcut_projection_1_spatbn''
        \<in> set (snd (create_r3d 400 0 10 7 1 (9 / 10 :: rat) ''off'' 512 []))
   \<and> is_shortcut_bn (BatchNorm 31 False eps_lit (None :: rat option)
        ''shortcut_projection_1_spatbn'')
   \<and> bn_momentum (BatchNorm 31 False eps_lit (None :: rat option)
        ''shortcut_projection_1_spatbn'') = Some None
   \<and> BatchNorm 20 False eps_lit (Some (9 / 10)) ''comp_1_spatbn_1_middle''
        \<in> set (snd (create_r3d 400 0 10 7 1 (9 / 10 :: rat) ''off'' 512 []))
   \<and> length (filter is_shortcut_bn
        (snd (create_r3d 400 0 10 7 1 (9 / 10 :: rat) ''off'' 512 []))) = 3
   \<and> fst (add_r3d_block (ModelBuilder_init 0 (9 / 10 :: rat) ''off'' 512) 0 64 128 True True
        False [Var ''data'' ''float32'']) = Inr 15
   \<and> map bn_momentum (drop 1 (snd (snd (add_r3d_block
        (ModelBuilder_init 0 (9 / 10 :: rat) ''off'' 512) 0 64 128 True True False
        [Var ''data'' ''float32''])))) =
       [None, Some (Some (9 / 10)), None, None, Some (Some (9 / 10)), None,
        None, Some (Some (9 / 10)), None, None, Some (Some (9 / 10)),
        None, Some None, None, None]"
proof -
  have m: "middle_filters 64 128 = Inr 230" "middle_filters 128 128 = Inr 288"
    by (simp_all add: middle_filters_small)
  obtain self' g' where
    r: "add_r3d_block (ModelBuilder_init 0 (9 / 10 :: rat) ''off'' 512) 0 64 128 True True False
           [Var ''data'' ''float32''] = (Inr 15, self', g')"
    by (simp add: add_r3d_block_Inr [OF m] block_len_def projects_def)
  have mem: "BatchNorm 31 False eps_lit None ''shortcut_projection_1_spatbn''
        \<in> set (snd (create_r3d 400 0 10 7 1 (9 / 10 :: rat) ''off'' 512 []))"
    "BatchNorm 20 False eps_lit (Some (9 / 10)) ''comp_1_spatbn_1_middle''
        \<in> set (snd (create_r3d 400 0 10 7 1 (9 / 10 :: rat) ''off'' 512 []))"
    by (simp_all add: create_r3d_supported [OF BLOCK_CONFIG_simps(1)] r3d_nodes_def
        stage_plan_def block_nodes_def main_nodes_def stc_nodes_def block_len_def projects_def
        ModelBuilder_init_def fmt_d_def digits.simps digit_char_def)
  show ?thesis
    using shortcut_bn_momentum [where d = 10 and nc = 400 and nb = 0 and fsk = 7 and ftk = 1
        and mom = "9 / 10 :: rat" and tune = "''off''" and ws = 512
        and self = "ModelBuilder_init 0 (9 / 10 :: rat) ''off'' 512" and data = 0 and i = 64
        and n = 128 and ds = True and sbn = True and osd = False
        and g = "[Var ''data'' ''float32'']" and out = 15 and self' = self' and g' = g']
      r mem
    by (simp add: ModelBuilder_init_def)
qed



end
